theory Spec2Isabelle
  imports Main
begin

section \<open>The game as the client reads it\<close>

text \<open>
  \<^verbatim>\<open>www/src/views/Game.jsx\<close> reads a game object that the server broadcasts. The fields
  below are the ones the view touches: \<^verbatim>\<open>game.id\<close>, \<^verbatim>\<open>game.players\<close> (each with
  \<^verbatim>\<open>id\<close>, \<^verbatim>\<open>name\<close>, \<^verbatim>\<open>points\<close>, \<^verbatim>\<open>cards\<close>), \<^verbatim>\<open>game.round\<close> (with \<^verbatim>\<open>host\<close>,
  \<^verbatim>\<open>blackCard\<close>, \<^verbatim>\<open>whiteCards\<close>), \<^verbatim>\<open>game.finishedRounds\<close> and \<^verbatim>\<open>game.finished\<close>.
  Identifiers are socket.io connection ids, hence strings. A field that JavaScript may
  leave \<^verbatim>\<open>undefined\<close> is an \<open>option\<close>.
\<close>

record player =
  player_id :: string
  player_name :: string
  points :: int
  player_cards :: "string list"

record black_card =
  card_text :: string
  pick :: nat

record white_card =
  card :: string
  owner :: string
  hidden :: bool

text \<open>
  The field \<open>owner\<close> is the source's \<^verbatim>\<open>player\<close> field of a white card
  (\<^verbatim>\<open>c.player\<close>): the id of the player who submitted the card.
\<close>

text \<open>
  The \<^verbatim>\<open>winner\<close> field of a finished round holds a player id in the rounds the server
  sends, and a player object or \<^verbatim>\<open>undefined\<close> in the object that
  \<^verbatim>\<open>getLastFinishedRound\<close> builds. The three shapes are one datatype.
\<close>

datatype winner_value =
  Winner_id string
  | Winner_player player
  | Winner_undefined

record round_state =
  host :: "string option"
  blackCard :: black_card
  whiteCards :: "white_card list"

record finished_round = round_state +
  winner :: winner_value

record game =
  game_id :: string
  players :: "player list"
  current_round :: round_state
  finishedRounds :: "finished_round list"
  finished :: bool

subsection \<open>getLastFinishedRound (Game.jsx, lines 13 to 21)\<close>

text \<open>
  \<^verbatim>\<open>p.id === round.winner\<close>: strict equality. A player id is a string, so it equals the
  stored value only when that value is the same string.
\<close>

definition winner_is :: "winner_value \<Rightarrow> player \<Rightarrow> bool" where
  "winner_is w p = (case w of Winner_id i \<Rightarrow> player_id p = i | Winner_player _ \<Rightarrow> False
                    | Winner_undefined \<Rightarrow> False)"

text \<open>
  \<^verbatim>\<open>game.players.find(...)\<close> returns the first match or \<^verbatim>\<open>undefined\<close>.
\<close>

definition find_winner :: "player list \<Rightarrow> winner_value \<Rightarrow> winner_value" where
  "find_winner ps w = (case List.find (winner_is w) ps of
                         None \<Rightarrow> Winner_undefined
                       | Some p \<Rightarrow> Winner_player p)"

text \<open>
  \<^verbatim>\<open>game.finishedRounds[game.finishedRounds.length - 1]\<close> is \<^verbatim>\<open>undefined\<close> on the empty
  array, and \<^verbatim>\<open>!round\<close> then returns \<^verbatim>\<open>null\<close> (\<open>None\<close>). Otherwise the result is the
  spread copy \<^verbatim>\<open>{ ...round, winner }\<close>: the last round with its \<^verbatim>\<open>winner\<close> overwritten.
\<close>

definition getLastFinishedRound :: "game \<Rightarrow> finished_round option" where
  "getLastFinishedRound g =
     (if finishedRounds g = [] then None
      else let r = finishedRounds g ! (length (finishedRounds g) - 1)
           in Some (r\<lparr>winner := find_winner (players g) (winner r)\<rparr>))"

subsection \<open>The messages the view sends (Game.jsx, lines 67 to 111)\<close>

text \<open>
  The values that travel over the socket. Property names and strings are all the handlers
  inspect, so numbers and booleans are left out.
\<close>

datatype json =
  Undefined
  | Null
  | Str string
  | Arr "json list"
  | Obj "(string \<times> json) list"

text \<open>
  \<^verbatim>\<open>socket.emit(event, payload)\<close> as the pair of the event name and the payload.
  \<^verbatim>\<open>playCards\<close> sends \<^verbatim>\<open>{ gameId: game.id, cards }\<close>, \<^verbatim>\<open>discardWhiteCards\<close> sends
  \<^verbatim>\<open>{ gameId: game.id, card }\<close>, and \<^verbatim>\<open>closeGameOverModal\<close> sends \<^verbatim>\<open>game.id\<close> itself
  (and then navigates away, which is not modelled).
\<close>

definition playCards :: "game \<Rightarrow> string list \<Rightarrow> string \<times> json" where
  "playCards g cs =
     (''game:play-white-cards'', Obj [(''gameId'', Str (game_id g)), (''cards'', Arr (map Str cs))])"

definition discardWhiteCards :: "game \<Rightarrow> string \<Rightarrow> string \<times> json" where
  "discardWhiteCards g c =
     (''game:discard-white-card'', Obj [(''gameId'', Str (game_id g)), (''card'', Str c)])"

definition closeGameOverModal :: "game \<Rightarrow> string \<times> json" where
  "closeGameOverModal g = (''game:leave'', Str (game_id g))"

subsection \<open>Thrown values\<close>

text \<open>
  A thrown value is an \<^verbatim>\<open>Error\<close> object; the handlers read its \<^verbatim>\<open>message\<close> only. (A
  thrown \<^verbatim>\<open>null\<close> or \<^verbatim>\<open>undefined\<close>, on which \<^verbatim>\<open>err.message\<close> would itself throw, is
  outside the model.)
\<close>

datatype error = Error string

fun message :: "error \<Rightarrow> string" where
  "message (Error m) = m"

subsection \<open>The cards of the round as the view shows them (Game.jsx, lines 33 to 35 and 253 to 333)\<close>

text \<open>
  \<^verbatim>\<open>groupCardsByPlayer\<close> fills a plain object keyed by \<^verbatim>\<open>card.player\<close> and returns
  \<^verbatim>\<open>Object.values\<close> of it. Two things in it are JavaScript's own.

  A key that names a property of \<^verbatim>\<open>Object.prototype\<close> is found on the empty object:
  \<^verbatim>\<open>players[key]\<close> is then the inherited value, which has no \<^verbatim>\<open>cards\<close>, and
  \<^verbatim>\<open>.cards.push(card)\<close> throws a \<^verbatim>\<open>TypeError\<close>.
\<close>

definition object_prototype_names :: "string list" where
  "object_prototype_names =
     [''constructor'', ''hasOwnProperty'', ''isPrototypeOf'', ''propertyIsEnumerable'',
      ''toLocaleString'', ''toString'', ''valueOf'', ''__proto__'', ''__defineGetter__'',
      ''__defineSetter__'', ''__lookupGetter__'', ''__lookupSetter__'']"

text \<open>
  \<^verbatim>\<open>Object.values\<close> lists the keys that are array indices first, in ascending numeric
  order, and then the other keys in the order in which they were created. An array index
  is the canonical decimal form (no sign, no leading zero) of an integer up to
  \<open>2\<^sup>3\<^sup>2 - 2\<close>.
\<close>

definition digit_value :: "char \<Rightarrow> int" where
  "digit_value c = int (length (takeWhile (\<lambda>d. d \<noteq> c) ''0123456789''))"

definition decimal :: "string \<Rightarrow> int" where
  "decimal s = foldl (\<lambda>n c. 10 * n + digit_value c) 0 s"

definition array_index :: "string \<Rightarrow> bool" where
  "array_index s =
     (s \<noteq> [] \<and> filter (\<lambda>c. c \<notin> set ''0123456789'') s = []
      \<and> (s = ''0'' \<or> take 1 s \<noteq> ''0'') \<and> decimal s \<le> 4294967294)"

record card_group =
  group_player :: string
  group_cards :: "white_card list"

definition object_values :: "card_group list \<Rightarrow> card_group list" where
  "object_values gs =
     sort_key (\<lambda>g. decimal (group_player g)) (filter (\<lambda>g. array_index (group_player g)) gs)
     @ filter (\<lambda>g. \<not> array_index (group_player g)) gs"

text \<open>
  One step of the loop on the groups created so far, in the order of their creation: the
  card joins the group of its player, or a new group is created after the others.
\<close>

fun add_card :: "white_card \<Rightarrow> card_group list \<Rightarrow> card_group list" where
  "add_card c [] = [\<lparr>group_player = owner c, group_cards = [c]\<rparr>]"
| "add_card c (g # gs) =
     (if group_player g = owner c then g\<lparr>group_cards := group_cards g @ [c]\<rparr> # gs
      else g # add_card c gs)"

text \<open>The loop \<^verbatim>\<open>for (const card of cards)\<close>: it stops at the first card that throws.\<close>

fun group_loop :: "white_card list \<Rightarrow> card_group list \<Rightarrow> error + card_group list" where
  "group_loop [] gs = Inr gs"
| "group_loop (c # cs) gs =
     (if owner c \<in> set object_prototype_names
      then Inl (Error ''Cannot read properties of undefined (reading push)'')
      else group_loop cs (add_card c gs))"

definition groupCardsByPlayer :: "white_card list \<Rightarrow> error + card_group list" where
  "groupCardsByPlayer cs =
     (case group_loop cs [] of Inl e \<Rightarrow> Inl e | Inr gs \<Rightarrow> Inr (object_values gs))"

text \<open>
  The text shown while a card is hidden: an inverted question mark (the two bytes of its
  UTF-8 encoding) and a question mark.
\<close>

definition hidden_mark :: string where
  "hidden_mark = [CHR 0xC2, CHR 0xBF, CHR ''?'']"

text \<open>
  One \<^verbatim>\<open>GameCard\<close> of the round. Host and other players get the same \<^verbatim>\<open>text\<close>; the host's
  card is a button whose click handler receives the card. \<^verbatim>\<open>decodeHtml\<close> goes through
  the browser's DOM and is a parameter.
\<close>

record card_face =
  face_text :: string
  face_click :: "white_card option"

definition card_face_of :: "(string \<Rightarrow> string) \<Rightarrow> bool \<Rightarrow> white_card \<Rightarrow> card_face" where
  "card_face_of decodeHtml playerIsHost c =
     (if playerIsHost
      then \<lparr>face_text = (if hidden c then hidden_mark else decodeHtml (card c)),
            face_click = Some c\<rparr>
      else \<lparr>face_text = (if hidden c then hidden_mark else decodeHtml (card c)),
            face_click = None\<rparr>)"

text \<open>
  The list inside \<^verbatim>\<open>Round\<close>: nothing while \<^verbatim>\<open>allCardsSent\<close> is false, and otherwise one
  block per group, keyed by the player, with one card face per card. An exception of
  \<^verbatim>\<open>groupCardsByPlayer\<close> leaves the render function, and nothing is shown.
\<close>

definition Round_cards ::
  "(string \<Rightarrow> string) \<Rightarrow> bool \<Rightarrow> bool \<Rightarrow> round_state
     \<Rightarrow> error + (string \<times> card_face list) list" where
  "Round_cards decodeHtml playerIsHost allCardsSent r =
     (if allCardsSent
      then (case groupCardsByPlayer (whiteCards r) of
              Inl e \<Rightarrow> Inl e
            | Inr gs \<Rightarrow>
                Inr (map (\<lambda>grp. (group_player grp,
                                  map (card_face_of decodeHtml playerIsHost) (group_cards grp)))
                         gs))
      else Inr [])"

text \<open>
  What \<^verbatim>\<open>Game\<close> passes to \<^verbatim>\<open>Round\<close> (lines 32 to 35 and 124 to 134), for the client whose
  socket id is \<open>playerId\<close>. \<^verbatim>\<open>playersReady\<close> counts the players of \<^verbatim>\<open>game.players\<close> who
  have a card in the round; \<^verbatim>\<open>allCardsSent\<close> compares it with the number of players minus
  one, which is \<open>-1\<close> for no players.
\<close>

definition playerIsHost :: "string \<Rightarrow> game \<Rightarrow> bool" where
  "playerIsHost playerId g = (host (current_round g) = Some playerId)"

definition playersReady :: "game \<Rightarrow> nat" where
  "playersReady g =
     length (filter (\<lambda>p. list_ex (\<lambda>c. owner c = player_id p) (whiteCards (current_round g)))
                    (players g))"

definition allCardsSent :: "game \<Rightarrow> bool" where
  "allCardsSent g = (int (playersReady g) = int (length (players g)) - 1)"

definition Game_round ::
  "(string \<Rightarrow> string) \<Rightarrow> string \<Rightarrow> game \<Rightarrow> error + (string \<times> card_face list) list" where
  "Game_round decodeHtml playerId g =
     Round_cards decodeHtml (playerIsHost playerId g) (allCardsSent g) (current_round g)"

section \<open>The socket handlers (the second part of the source file, lines 414 to 510)\<close>

subsection \<open>JavaScript values in the handlers\<close>

text \<open>
  \<^verbatim>\<open>`game-${gameId}`\<close> converts \<^verbatim>\<open>gameId\<close> to a string: \<^verbatim>\<open>undefined\<close> and
  \<^verbatim>\<open>null\<close> by name, an array by joining its elements with commas (\<^verbatim>\<open>undefined\<close> and
  \<^verbatim>\<open>null\<close> elements as empty strings), an object as \<^verbatim>\<open>[object Object]\<close>.
\<close>

definition join_comma :: "string list \<Rightarrow> string" where
  "join_comma xs = (case xs of [] \<Rightarrow> [] | y # ys \<Rightarrow> foldl (\<lambda>acc s. acc @ '','' @ s) y ys)"

fun to_string :: "json \<Rightarrow> string" where
  "to_string Undefined = ''undefined''"
| "to_string Null = ''null''"
| "to_string (Str s) = s"
| "to_string (Arr xs) =
     join_comma (map (\<lambda>x. if x = Undefined \<or> x = Null then [] else to_string x) xs)"
| "to_string (Obj kvs) = ''[object Object]''"

text \<open>
  Reading a property in a destructuring pattern. The handlers read \<^verbatim>\<open>gameId\<close>,
  \<^verbatim>\<open>cards\<close>, \<^verbatim>\<open>playerId\<close> and \<^verbatim>\<open>winnerPlayerId\<close>; a string or an array has none of
  them, and a missing property is \<^verbatim>\<open>undefined\<close>.
\<close>

fun get_prop :: "string \<Rightarrow> json \<Rightarrow> json" where
  "get_prop k (Obj kvs) = (case map_of kvs k of Some v \<Rightarrow> v | None \<Rightarrow> Undefined)"
| "get_prop k Undefined = Undefined"
| "get_prop k Null = Undefined"
| "get_prop k (Str s) = Undefined"
| "get_prop k (Arr xs) = Undefined"

subsection \<open>Effects\<close>

text \<open>
  What an emitted event carries: a game object (in its serialised form, the record
  \<open>game\<close>), a plain value, or the result of the server's \<^verbatim>\<open>getLastFinishedRound()\<close>
  (a finished round or \<^verbatim>\<open>null\<close>).
\<close>

datatype payload =
  P_game game
  | P_value json
  | P_round "finished_round option"

text \<open>\<^verbatim>\<open>io.to(target).emit(event, payload)\<close>.\<close>

record emission =
  target :: string
  event :: string
  payload :: payload

text \<open>
  The only timer of the file is the one of \<^verbatim>\<open>game:finish-round\<close>. Its callback closes
  over \<^verbatim>\<open>room\<close> and \<^verbatim>\<open>game\<close>. \<^verbatim>\<open>setTimeout\<close>'s return value is dropped, so a timer is
  known by its place in the list of pending timers only.
\<close>

record 'h timer =
  delay :: nat
  timer_room :: string
  timer_game :: 'h

text \<open>
  The state a handler works on. \<open>store\<close> is everything behind \<^verbatim>\<open>db\<close> and the game
  objects, whose code is not part of the source file: its type \<open>'s\<close> is a parameter, and
  \<open>'h\<close> is the type of references to game objects. A handler runs to its end in one
  step: what other handlers might do while it waits at an \<^verbatim>\<open>await\<close> is not modelled.
\<close>

record ('s, 'h) world =
  store :: 's
  emitted :: "emission list"
  timers :: "'h timer list"
  console :: "string list"

type_synonym ('s, 'a) call = "'s \<Rightarrow> (error + 'a) \<times> 's"

type_synonym ('s, 'h, 'a) handler = "('s, 'h) world \<Rightarrow> (error + 'a) \<times> ('s, 'h) world"

definition returns :: "'a \<Rightarrow> ('s, 'h, 'a) handler" where
  "returns x w = (Inr x, w)"

definition throw :: "error \<Rightarrow> ('s, 'h, 'a) handler" where
  "throw e w = (Inl e, w)"

text \<open>Sequencing: a throw ends the handler, and what was done before it stays done.\<close>

definition bind :: "('s, 'h, 'a) handler \<Rightarrow> ('a \<Rightarrow> ('s, 'h, 'b) handler) \<Rightarrow> ('s, 'h, 'b) handler" where
  "bind m f w = (case m w of (Inl e, w') \<Rightarrow> (Inl e, w') | (Inr x, w') \<Rightarrow> f x w')"

definition emit :: "string \<Rightarrow> string \<Rightarrow> payload \<Rightarrow> ('s, 'h, unit) handler" where
  "emit room ev p w =
     (Inr (), w\<lparr>emitted := emitted w @ [\<lparr>target = room, event = ev, payload = p\<rparr>]\<rparr>)"

definition setTimeout :: "'h timer \<Rightarrow> ('s, 'h, unit) handler" where
  "setTimeout t w = (Inr (), w\<lparr>timers := timers w @ [t]\<rparr>)"

text \<open>A call into \<^verbatim>\<open>db\<close> or into a method of a game object.\<close>

definition call :: "('s, 'a) call \<Rightarrow> ('s, 'h, 'a) handler" where
  "call c w = (case c (store w) of (r, s') \<Rightarrow> (r, w\<lparr>store := s'\<rparr>))"

subsection \<open>The code behind \<^verbatim>\<open>db\<close>\<close>

text \<open>
  \<^verbatim>\<open>db.getGame\<close> and \<^verbatim>\<open>db.removeGame\<close> are parameters. \<open>view\<close> is the content of a game
  object at a given moment: what \<^verbatim>\<open>emit\<close> serialises and what \<^verbatim>\<open>game.players\<close> reads.
  The methods of the game class are parameters of the handlers that call them.
\<close>

record ('s, 'h) backend =
  getGame :: "json \<Rightarrow> ('s, 'h) call"
  removeGame :: "'h \<Rightarrow> ('s, unit) call"
  view :: "'h \<Rightarrow> 's \<Rightarrow> game"

definition emit_game :: "('s, 'h) backend \<Rightarrow> string \<Rightarrow> string \<Rightarrow> 'h \<Rightarrow> ('s, 'h, unit) handler" where
  "emit_game db room ev h w = emit room ev (P_game (view db h (store w))) w"

subsection \<open>handleMessage (lines 417 to 427)\<close>

text \<open>
  \<^verbatim>\<open>handleMessage(key, listener)\<close> registers a wrapper for the event \<^verbatim>\<open>key\<close> on the socket
  with id \<open>sid\<close>. The wrapper awaits the listener; if it throws, the message is logged
  and sent to \<^verbatim>\<open>io.to(socket.id)\<close>.
\<close>

definition error_text :: "string \<Rightarrow> error \<Rightarrow> string" where
  "error_text key err = ''error on \"'' @ key @ ''\" listener: '' @ message err"

definition handleMessage ::
  "string \<Rightarrow> string \<Rightarrow> (json \<Rightarrow> ('s, 'h, unit) handler) \<Rightarrow> json \<Rightarrow> ('s, 'h) world \<Rightarrow> ('s, 'h) world" where
  "handleMessage sid key listener data w =
     (case listener data w of
        (Inr u, w') \<Rightarrow> w'
      | (Inl err, w') \<Rightarrow>
          w'\<lparr>console := console w' @ [''[sockets.js] '' @ error_text key err],
             emitted := emitted w' @
               [\<lparr>target = sid, event = ''error'', payload = P_value (Str (error_text key err))\<rparr>]\<rparr>)"

subsection \<open>The listeners\<close>

text \<open>
  A listener whose parameter is a destructuring pattern throws a \<^verbatim>\<open>TypeError\<close> on
  \<^verbatim>\<open>undefined\<close> and \<^verbatim>\<open>null\<close> (the message is the engine's; a text of that kind stands
  for it), and reads the properties of anything else.
\<close>

definition destructure :: "string \<Rightarrow> json \<Rightarrow> (json \<Rightarrow> ('s, 'h, 'a) handler) \<Rightarrow> ('s, 'h, 'a) handler" where
  "destructure k data body =
     (if data = Undefined \<or> data = Null
      then throw (Error (''Cannot destructure property '' @ k @ '' of '' @ to_string data))
      else body data)"

definition room_of :: "json \<Rightarrow> string" where
  "room_of gameId = ''game-'' @ to_string gameId"

text \<open>\<^verbatim>\<open>game:leave\<close> (lines 447 to 455).\<close>

definition leave ::
  "('s, 'h) backend \<Rightarrow> ('h \<Rightarrow> json \<Rightarrow> ('s, 'h) call) \<Rightarrow> json \<Rightarrow> json \<Rightarrow> ('s, 'h, unit) handler" where
  "leave db removePlayer gameId playerId =
     bind (call (getGame db gameId)) (\<lambda>h.
     bind (call (removePlayer h playerId)) (\<lambda>game.
     bind (emit_game db (room_of gameId) ''game:edit'' game) (\<lambda>_.
     bind (emit (room_of gameId) ''game:kick'' (P_value playerId)) (\<lambda>_.
     (\<lambda>w. if players (view db game (store w)) = []
          then call (removeGame db game) w
          else returns () w)))))"

definition leave_listener ::
  "('s, 'h) backend \<Rightarrow> ('h \<Rightarrow> json \<Rightarrow> ('s, 'h) call) \<Rightarrow> json \<Rightarrow> ('s, 'h, unit) handler" where
  "leave_listener db removePlayer data =
     destructure ''gameId'' data
       (\<lambda>d. leave db removePlayer (get_prop ''gameId'' d) (get_prop ''playerId'' d))"

text \<open>\<^verbatim>\<open>game:play-white-cards\<close> (lines 463 to 468).\<close>

definition play_white_cards ::
  "('s, 'h) backend \<Rightarrow> ('h \<Rightarrow> json \<Rightarrow> json \<Rightarrow> ('s, 'h) call) \<Rightarrow> json \<Rightarrow> json \<Rightarrow> json
     \<Rightarrow> ('s, 'h, unit) handler" where
  "play_white_cards db playWhiteCards gameId cards playerId =
     bind (call (getGame db gameId)) (\<lambda>h.
     bind (call (playWhiteCards h cards playerId)) (\<lambda>game.
     bind (emit_game db (room_of gameId) ''game:edit'' game) (\<lambda>_.
     emit (room_of gameId) ''game:cards-played'' (P_value cards))))"

definition play_white_cards_listener ::
  "('s, 'h) backend \<Rightarrow> ('h \<Rightarrow> json \<Rightarrow> json \<Rightarrow> ('s, 'h) call) \<Rightarrow> json \<Rightarrow> ('s, 'h, unit) handler" where
  "play_white_cards_listener db playWhiteCards data =
     destructure ''gameId'' data
       (\<lambda>d. play_white_cards db playWhiteCards
               (get_prop ''gameId'' d) (get_prop ''cards'' d) (get_prop ''playerId'' d))"

text \<open>\<^verbatim>\<open>game:discard-white-card\<close> (lines 470 to 474).\<close>

definition discard_white_card ::
  "('s, 'h) backend \<Rightarrow> ('h \<Rightarrow> json \<Rightarrow> json \<Rightarrow> ('s, 'h) call) \<Rightarrow> json \<Rightarrow> json \<Rightarrow> json
     \<Rightarrow> ('s, 'h, unit) handler" where
  "discard_white_card db discardWhiteCard gameId cards playerId =
     bind (call (getGame db gameId)) (\<lambda>h.
     bind (call (discardWhiteCard h cards playerId)) (\<lambda>game.
     emit_game db (room_of gameId) ''game:edit'' game))"

definition discard_white_card_listener ::
  "('s, 'h) backend \<Rightarrow> ('h \<Rightarrow> json \<Rightarrow> json \<Rightarrow> ('s, 'h) call) \<Rightarrow> json \<Rightarrow> ('s, 'h, unit) handler" where
  "discard_white_card_listener db discardWhiteCard data =
     destructure ''gameId'' data
       (\<lambda>d. discard_white_card db discardWhiteCard
               (get_prop ''gameId'' d) (get_prop ''cards'' d) (get_prop ''playerId'' d))"

text \<open>
  \<^verbatim>\<open>game:finish-round\<close> (lines 482 to 489). The timer keeps the object that \<^verbatim>\<open>db.getGame\<close>
  returned, not the value of \<^verbatim>\<open>finishRound\<close>.
\<close>

definition finish_round ::
  "('s, 'h) backend \<Rightarrow> ('h \<Rightarrow> json \<Rightarrow> ('s, 'h) call) \<Rightarrow> json \<Rightarrow> json \<Rightarrow> ('s, 'h, unit) handler" where
  "finish_round db finishRound gameId winnerPlayerId =
     bind (call (getGame db gameId)) (\<lambda>game.
     bind (call (finishRound game winnerPlayerId)) (\<lambda>result.
     bind (emit_game db (room_of gameId) ''game:edit'' result) (\<lambda>_.
     setTimeout \<lparr>delay = 500, timer_room = room_of gameId, timer_game = game\<rparr>)))"

definition finish_round_listener ::
  "('s, 'h) backend \<Rightarrow> ('h \<Rightarrow> json \<Rightarrow> ('s, 'h) call) \<Rightarrow> json \<Rightarrow> ('s, 'h, unit) handler" where
  "finish_round_listener db finishRound data =
     destructure ''gameId'' data
       (\<lambda>d. finish_round db finishRound (get_prop ''gameId'' d) (get_prop ''winnerPlayerId'' d))"

text \<open>
  The callback of the timer: \<^verbatim>\<open>io.to(room).emit('game:round-winner',
  game.getLastFinishedRound())\<close>, with the game read when the timer fires.
\<close>

definition round_winner_callback ::
  "('h \<Rightarrow> ('s, finished_round option) call) \<Rightarrow> 'h timer \<Rightarrow> ('s, 'h, unit) handler" where
  "round_winner_callback lastFinishedRound t =
     bind (call (lastFinishedRound (timer_game t)))
          (\<lambda>r. emit (timer_room t) ''game:round-winner'' (P_round r))"

text \<open>
  The pending timer at position \<open>i\<close> fires: it leaves the list and its callback runs. A
  result \<open>Inl\<close> is an exception that nothing catches. Nothing in the file removes a timer
  in any other way: there is no \<^verbatim>\<open>clearTimeout\<close>.
\<close>

definition fire_timer ::
  "('h \<Rightarrow> ('s, finished_round option) call) \<Rightarrow> nat \<Rightarrow> ('s, 'h, unit) handler" where
  "fire_timer lastFinishedRound i w =
     (if i < length (timers w)
      then round_winner_callback lastFinishedRound (timers w ! i)
             (w\<lparr>timers := take i (timers w) @ drop (Suc i) (timers w)\<rparr>)
      else returns () w)"

text \<open>
  What the connection \<open>c\<close> receives of a list of emissions, given the members of each
  room.
\<close>

definition received :: "(string \<Rightarrow> string list) \<Rightarrow> emission list \<Rightarrow> string \<Rightarrow> (string \<times> payload) list" where
  "received members es c =
     map (\<lambda>e. (event e, payload e)) (filter (\<lambda>e. c \<in> set (members (target e))) es)"

section \<open>A reference session, for the examples\<close>

text \<open>
  The game class and \<^verbatim>\<open>db\<close> are not part of the source file. The theorems below hold for
  every backend and every method. The examples need one concrete backend to run on; this
  section builds it from sections 3, 4.1, 4.2 and 4.3 of the specification. Shuffling is
  not modelled: a pile that is put back keeps its order. The hand limit and the points
  that end the game, which the specification leaves open, are fields of the session.
\<close>

record deck_loan =
  promptPool :: "black_card list"
  promptUsed :: "black_card list"
  responsePool :: "string list"
  responseDiscard :: "string list"

record session =
  state :: game
  loan :: deck_loan
  handLimit :: nat
  pointsToWin :: int

text \<open>
  Modelled from the spec: \<^verbatim>\<open>drawPrompt\<close> of the Deck Registry, which is not in the source
  file. It removes and returns one prompt card; on an empty pool the used pile is put
  back first; it fails with \<^verbatim>\<open>DeckExhausted\<close> only when there is no prompt card at all.
\<close>

definition drawPrompt :: "deck_loan \<Rightarrow> error + black_card \<times> deck_loan" where
  "drawPrompt l =
     (case promptPool l of
        c # cs \<Rightarrow> Inr (c, l\<lparr>promptPool := cs, promptUsed := promptUsed l @ [c]\<rparr>)
      | [] \<Rightarrow>
          (case promptUsed l of
             [] \<Rightarrow> Inl (Error ''DeckExhausted'')
           | c # cs \<Rightarrow> Inr (c, l\<lparr>promptPool := cs, promptUsed := [c]\<rparr>)))"

text \<open>
  Modelled from the spec: \<^verbatim>\<open>drawResponses\<close> of the Deck Registry, which is not in the
  source file. It draws \<open>n\<close> cards for a hand that holds \<open>hand\<close>, with the same policy on
  an empty pool; it prefers a card the hand does not hold and accepts a duplicate when
  there is none; when no card is left at all it returns what it has drawn.
\<close>

fun drawResponses :: "deck_loan \<Rightarrow> string list \<Rightarrow> nat \<Rightarrow> string list \<times> deck_loan" where
  "drawResponses l hand 0 = ([], l)"
| "drawResponses l hand (Suc n) =
     (let l1 = (if responsePool l = []
                then l\<lparr>responsePool := responseDiscard l, responseDiscard := []\<rparr>
                else l)
      in case responsePool l1 of
           [] \<Rightarrow> ([], l1)
         | c0 # rest \<Rightarrow>
             (let c = (case List.find (\<lambda>x. x \<notin> set hand) (responsePool l1) of
                         Some x \<Rightarrow> x
                       | None \<Rightarrow> c0);
                  more = drawResponses (l1\<lparr>responsePool := remove1 c (responsePool l1)\<rparr>)
                           (hand @ [c]) n
              in (c # fst more, snd more)))"

text \<open>
  Modelled from the spec: \<^verbatim>\<open>returnResponses\<close> of the Deck Registry, which is not in the
  source file. The cards go to the discard pile of the loan.
\<close>

definition returnResponses :: "deck_loan \<Rightarrow> string list \<Rightarrow> deck_loan" where
  "returnResponses l cs = l\<lparr>responseDiscard := responseDiscard l @ cs\<rparr>"

definition submitted :: "round_state \<Rightarrow> string \<Rightarrow> bool" where
  "submitted r p = list_ex (\<lambda>c. owner c = p) (whiteCards r)"

text \<open>
  Modelled from the spec: the judge rotation of the Session, which is not in the source
  file. The next host is the player after the current host in join order, wrapping
  around; with no current host among the players it is the first player.
\<close>

definition next_host :: "player list \<Rightarrow> string option \<Rightarrow> string option" where
  "next_host ps h =
     (case ps of
        [] \<Rightarrow> None
      | p0 # _ \<Rightarrow>
          (case dropWhile (\<lambda>p. Some (player_id p) \<noteq> h) ps of
             _ # q # _ \<Rightarrow> Some (player_id q)
           | _ \<Rightarrow> Some (player_id p0)))"

text \<open>
  Modelled from the spec: \<^verbatim>\<open>playWhiteCards\<close> of the Session, which is not in the source
  file. It fails with \<^verbatim>\<open>NotYourTurn\<close> for the host, \<^verbatim>\<open>AlreadySubmitted\<close> for a player
  with a submission in the round, \<^verbatim>\<open>WrongCardCount\<close> when the number of cards is not the
  prompt's \<^verbatim>\<open>pick\<close>, and \<^verbatim>\<open>CardNotInHand\<close> when a card is not in the player's hand (a
  player who is not in the game has no hand). Otherwise the cards leave the hand, one
  hidden entry per card joins the round's submissions, and the hand is filled up to the
  limit from the loan.
\<close>

definition session_playWhiteCards :: "string list \<Rightarrow> string \<Rightarrow> session \<Rightarrow> error + session" where
  "session_playWhiteCards cs p ses =
     (let g = state ses; r = current_round g
      in if host r = Some p then Inl (Error ''NotYourTurn'')
         else if submitted r p then Inl (Error ''AlreadySubmitted'')
         else if length cs \<noteq> pick (blackCard r) then Inl (Error ''WrongCardCount'')
         else (case List.find (\<lambda>q. player_id q = p) (players g) of
                 None \<Rightarrow> Inl (Error ''CardNotInHand'')
               | Some q \<Rightarrow>
                   if filter (\<lambda>c. c \<notin> set (player_cards q)) cs \<noteq> []
                   then Inl (Error ''CardNotInHand'')
                   else
                     (let kept = filter (\<lambda>c. c \<notin> set cs) (player_cards q);
                          drawn = drawResponses (loan ses) kept (handLimit ses - length kept);
                          q' = q\<lparr>player_cards := kept @ fst drawn\<rparr>;
                          entries = map (\<lambda>c. \<lparr>card = c, owner = p, hidden = True\<rparr>) cs
                      in Inr (ses\<lparr>state := g\<lparr>players :=
                                               map (\<lambda>x. if player_id x = p then q' else x) (players g),
                                             current_round := r\<lparr>whiteCards := whiteCards r @ entries\<rparr>\<rparr>,
                                  loan := snd drawn\<rparr>))))"

text \<open>
  Modelled from the spec: \<^verbatim>\<open>finishRound\<close> of the Session, which is not in the source
  file. It fails with \<^verbatim>\<open>InvalidWinner\<close> when the winner is the host or did not submit.
  Otherwise the winner gains one point and the round, with its winner, is appended to
  \<^verbatim>\<open>finishedRounds\<close>. The game is then finished when the winner has reached the
  configured points or at most one player is left; otherwise a new round starts with a
  new prompt card, the next host and no submissions.
\<close>

definition session_finishRound :: "string \<Rightarrow> session \<Rightarrow> error + session" where
  "session_finishRound w ses =
     (let g = state ses; r = current_round g
      in if host r = Some w then Inl (Error ''InvalidWinner'')
         else if submitted r w
         then
           (let ps = map (\<lambda>p. if player_id p = w then p\<lparr>points := points p + 1\<rparr> else p) (players g);
                snap = \<lparr>host = host r, blackCard = blackCard r, whiteCards = whiteCards r,
                        winner = Winner_id w\<rparr>;
                g1 = g\<lparr>players := ps, finishedRounds := finishedRounds g @ [snap]\<rparr>
            in if list_ex (\<lambda>p. player_id p = w \<and> pointsToWin ses \<le> points p) ps \<or> length ps \<le> 1
               then Inr (ses\<lparr>state := g1\<lparr>finished := True\<rparr>\<rparr>)
               else (case drawPrompt (loan ses) of
                       Inl e \<Rightarrow> Inl e
                     | Inr (c, l') \<Rightarrow>
                         Inr (ses\<lparr>state := g1\<lparr>current_round :=
                                                  \<lparr>host = next_host ps (host r), blackCard = c,
                                                   whiteCards = []\<rparr>\<rparr>,
                                    loan := l'\<rparr>)))
         else Inl (Error ''InvalidWinner''))"

text \<open>
  Modelled from the spec: \<^verbatim>\<open>removePlayer\<close> of the Session, which is not in the source
  file. The player leaves the list, the hand goes back to the discard pile, a submission
  of the player in the current round is retracted, and when the player was the host the
  next player in join order becomes host (nobody when no player remains).
\<close>

definition session_removePlayer :: "string \<Rightarrow> session \<Rightarrow> error + session" where
  "session_removePlayer p ses =
     (let g = state ses; r = current_round g;
          hand = concat (map player_cards (filter (\<lambda>q. player_id q = p) (players g)));
          ps = filter (\<lambda>q. player_id q \<noteq> p) (players g);
          h' = (if host r = Some p
                then (if ps = [] then None else next_host (players g) (host r))
                else host r)
      in Inr (ses\<lparr>state := g\<lparr>players := ps,
                             current_round := r\<lparr>host := h',
                                                whiteCards := filter (\<lambda>c. owner c \<noteq> p) (whiteCards r)\<rparr>\<rparr>,
                  loan := returnResponses (loan ses) hand\<rparr>))"

text \<open>
  Modelled from the spec: \<^verbatim>\<open>getLastFinishedRound\<close> of the Session (the server's method,
  not the function of the view), which is not in the source file. A pure read: the most
  recent snapshot, or \<^verbatim>\<open>null\<close> when there is none.
\<close>

definition session_getLastFinishedRound :: "session \<Rightarrow> finished_round option" where
  "session_getLastFinishedRound ses =
     (case rev (finishedRounds (state ses)) of [] \<Rightarrow> None | r # _ \<Rightarrow> Some r)"

text \<open>
  Modelled from the spec: the Session Directory, which is not in the source file.
  \<open>objects\<close> holds the session objects by id, and \<open>listed\<close> the ids that the directory
  resolves. \<^verbatim>\<open>get\<close> fails with \<^verbatim>\<open>GameNotFound\<close> on an unknown id; \<^verbatim>\<open>remove\<close> evicts
  the id. An evicted object lives on for whoever still holds a reference to it, as an
  object does in JavaScript. A reference is the id.
\<close>

record directory =
  objects :: "(string \<times> session) list"
  listed :: "string list"

definition no_game :: game where
  "no_game = \<lparr>game_id = [], players = [],
              current_round = \<lparr>host = None, blackCard = \<lparr>card_text = [], pick = 1\<rparr>, whiteCards = []\<rparr>,
              finishedRounds = [], finished = False\<rparr>"

definition dir_getGame :: "json \<Rightarrow> (directory, string) call" where
  "dir_getGame gameId d =
     (case gameId of
        Str k \<Rightarrow> (if k \<in> set (listed d) \<and> k \<in> set (map fst (objects d))
                  then (Inr k, d) else (Inl (Error ''GameNotFound''), d))
      | Undefined \<Rightarrow> (Inl (Error ''GameNotFound''), d)
      | Null \<Rightarrow> (Inl (Error ''GameNotFound''), d)
      | Arr xs \<Rightarrow> (Inl (Error ''GameNotFound''), d)
      | Obj kvs \<Rightarrow> (Inl (Error ''GameNotFound''), d))"

definition dir_removeGame :: "string \<Rightarrow> (directory, unit) call" where
  "dir_removeGame h d = (Inr (), d\<lparr>listed := removeAll h (listed d)\<rparr>)"

definition dir_view :: "string \<Rightarrow> directory \<Rightarrow> game" where
  "dir_view h d = (case map_of (objects d) h of Some ses \<Rightarrow> state ses | None \<Rightarrow> no_game)"

definition reference_db :: "(directory, string) backend" where
  "reference_db = \<lparr>getGame = dir_getGame, removeGame = dir_removeGame, view = dir_view\<rparr>"

text \<open>A method call on the object behind a reference: the object is updated in place.\<close>

definition on_session :: "(session \<Rightarrow> error + session) \<Rightarrow> string \<Rightarrow> (directory, string) call" where
  "on_session f h d =
     (case map_of (objects d) h of
        None \<Rightarrow> (Inl (Error ''GameNotFound''), d)
      | Some ses \<Rightarrow>
          (case f ses of
             Inl e \<Rightarrow> (Inl e, d)
           | Inr ses' \<Rightarrow>
               (Inr h, d\<lparr>objects := map (\<lambda>kv. if fst kv = h then (h, ses') else kv) (objects d)\<rparr>)))"

text \<open>
  The methods as the handlers call them, on the values of the payload. A value that is
  not a string names no player, and a value that is not an array of strings holds no
  cards.
\<close>

fun as_strings :: "json \<Rightarrow> string list" where
  "as_strings (Arr xs) = concat (map (\<lambda>x. case x of Str s \<Rightarrow> [s] | _ \<Rightarrow> []) xs)"
| "as_strings Undefined = []"
| "as_strings Null = []"
| "as_strings (Str s) = []"
| "as_strings (Obj kvs) = []"

definition ref_playWhiteCards :: "string \<Rightarrow> json \<Rightarrow> json \<Rightarrow> (directory, string) call" where
  "ref_playWhiteCards h cards playerId =
     (case playerId of
        Str p \<Rightarrow> on_session (session_playWhiteCards (as_strings cards) p) h
      | _ \<Rightarrow> on_session (\<lambda>ses. Inl (Error ''CardNotInHand'')) h)"

definition ref_finishRound :: "string \<Rightarrow> json \<Rightarrow> (directory, string) call" where
  "ref_finishRound h winnerPlayerId =
     (case winnerPlayerId of
        Str p \<Rightarrow> on_session (session_finishRound p) h
      | _ \<Rightarrow> on_session (\<lambda>ses. Inl (Error ''InvalidWinner'')) h)"

definition ref_removePlayer :: "string \<Rightarrow> json \<Rightarrow> (directory, string) call" where
  "ref_removePlayer h playerId =
     (case playerId of
        Str p \<Rightarrow> on_session (session_removePlayer p) h
      | _ \<Rightarrow> on_session Inr h)"

definition ref_getLastFinishedRound :: "string \<Rightarrow> (directory, finished_round option) call" where
  "ref_getLastFinishedRound h d =
     (case map_of (objects d) h of
        None \<Rightarrow> (Inl (Error ''GameNotFound''), d)
      | Some ses \<Rightarrow> (Inr (session_getLastFinishedRound ses), d))"

section \<open>Example data\<close>

definition alice :: player where
  "alice = \<lparr>player_id = ''A'', player_name = ''Alice'', points = 0, player_cards = [''a1'', ''a2'']\<rparr>"

definition bob :: player where
  "bob = \<lparr>player_id = ''B'', player_name = ''Bob'', points = 1, player_cards = [''b1'', ''b2'']\<rparr>"

definition carol :: player where
  "carol = \<lparr>player_id = ''C'', player_name = ''Carol'', points = 0, player_cards = [''c1'', ''c2'']\<rparr>"

definition prompt1 :: black_card where
  "prompt1 = \<lparr>card_text = ''Why?'', pick = 1\<rparr>"

definition prompt2 :: black_card where
  "prompt2 = \<lparr>card_text = ''What?'', pick = 1\<rparr>"

definition round_one :: finished_round where
  "round_one = \<lparr>host = Some ''C'', blackCard = prompt2,
                 whiteCards = [\<lparr>card = ''a0'', owner = ''A'', hidden = False\<rparr>,
                               \<lparr>card = ''b0'', owner = ''B'', hidden = False\<rparr>],
                 winner = Winner_id ''A''\<rparr>"

definition round_two :: finished_round where
  "round_two = \<lparr>host = Some ''A'', blackCard = prompt1,
                 whiteCards = [\<lparr>card = ''b3'', owner = ''B'', hidden = False\<rparr>,
                               \<lparr>card = ''z3'', owner = ''Z'', hidden = False\<rparr>],
                 winner = Winner_id ''B''\<rparr>"

definition round_gone :: finished_round where
  "round_gone = round_two\<lparr>winner := Winner_id ''Z''\<rparr>"

definition fresh_round :: round_state where
  "fresh_round = \<lparr>host = Some ''A'', blackCard = prompt1, whiteCards = []\<rparr>"

definition table_game :: "finished_round list \<Rightarrow> game" where
  "table_game frs = \<lparr>game_id = ''g1'', players = [alice, bob, carol],
                      current_round = fresh_round, finishedRounds = frs, finished = False\<rparr>"

text \<open>
  One session in the directory: Alice hosts, Bob and Carol play, nobody has submitted.
  Every connection is alone in the room named by its id, and all three are in the room
  of the game.
\<close>

definition demo_loan :: deck_loan where
  "demo_loan = \<lparr>promptPool = [prompt2], promptUsed = [prompt1],
                responsePool = [''r1'', ''r2'', ''r3''], responseDiscard = []\<rparr>"

definition demo_session :: session where
  "demo_session = \<lparr>state = table_game [], loan = demo_loan, handLimit = 2, pointsToWin = 5\<rparr>"

definition demo_world :: "(directory, string) world" where
  "demo_world = \<lparr>store = \<lparr>objects = [(''g1'', demo_session)], listed = [''g1'']\<rparr>,
                 emitted = [], timers = [], console = []\<rparr>"

definition demo_members :: "string \<Rightarrow> string list" where
  "demo_members room = (if room = ''game-g1'' then [''A'', ''B'', ''C''] else [room])"

text \<open>Bob submits the card \<open>b1\<close>.\<close>

definition play_data :: json where
  "play_data = Obj [(''gameId'', Str ''g1''), (''cards'', Arr [Str ''b1'']), (''playerId'', Str ''B'')]"

definition after_play :: "(directory, string) world" where
  "after_play = handleMessage ''B'' ''game:play-white-cards''
                  (play_white_cards_listener reference_db ref_playWhiteCards) play_data demo_world"

text \<open>Alice, the host, marks Bob as the winner.\<close>

definition finish_data :: json where
  "finish_data = Obj [(''gameId'', Str ''g1''), (''winnerPlayerId'', Str ''B'')]"

definition after_finish :: "(directory, string) world" where
  "after_finish = handleMessage ''A'' ''game:finish-round''
                  (finish_round_listener reference_db ref_finishRound) finish_data after_play"

definition announced_round :: finished_round where
  "announced_round = \<lparr>host = Some ''A'', blackCard = prompt1,
                       whiteCards = [\<lparr>card = ''b1'', owner = ''B'', hidden = True\<rparr>],
                       winner = Winner_id ''B''\<rparr>"

definition round_winner_event :: emission where
  "round_winner_event = \<lparr>target = ''game-g1'', event = ''game:round-winner'',
                          payload = P_round (Some announced_round)\<rparr>"

definition second_round_game :: game where
  "second_round_game = \<lparr>game_id = ''g1'',
     players = [alice, bob\<lparr>points := 2, player_cards := [''b2'', ''r1'']\<rparr>, carol],
     current_round = \<lparr>host = Some ''B'', blackCard = prompt2, whiteCards = []\<rparr>,
     finishedRounds = [announced_round], finished = False\<rparr>"

text \<open>Then all three players leave, before the timer of the finished round fires.\<close>

definition leave_data :: "string \<Rightarrow> json" where
  "leave_data p = Obj [(''gameId'', Str ''g1''), (''playerId'', Str p)]"

definition leave_by :: "string \<Rightarrow> (directory, string) world \<Rightarrow> (directory, string) world" where
  "leave_by p w = handleMessage p ''game:leave'' (leave_listener reference_db ref_removePlayer)
                    (leave_data p) w"

definition after_leaves :: "(directory, string) world" where
  "after_leaves = leave_by ''C'' (leave_by ''B'' (leave_by ''A'' after_finish))"

text \<open>A leave command for a game that does not exist.\<close>

definition unknown_leave :: json where
  "unknown_leave = Obj [(''gameId'', Str ''zz''), (''playerId'', Str ''A'')]"

text \<open>A round with one hidden and one revealed card.\<close>

definition mixed_round :: round_state where
  "mixed_round = \<lparr>host = Some ''A'', blackCard = prompt1,
                   whiteCards = [\<lparr>card = ''b1'', owner = ''B'', hidden = True\<rparr>,
                                 \<lparr>card = ''c1'', owner = ''C'', hidden = False\<rparr>]\<rparr>"

definition mixed_game :: game where
  "mixed_game = \<lparr>game_id = ''g1'', players = [alice, bob, carol],
                  current_round = mixed_round, finishedRounds = [], finished = False\<rparr>"

text \<open>
  The invariant of the grouping loop, for the cards \<open>cs\<close> handled so far: one group per
  player who has a card among them, and in each group exactly that player's cards, in
  their order.
\<close>

definition groups_of :: "white_card list \<Rightarrow> card_group list \<Rightarrow> bool" where
  "groups_of cs gs =
     (distinct (map group_player gs)
      \<and> set (map group_player gs) = owner ` set cs
      \<and> (\<forall>g \<in> set gs. group_cards g = filter (\<lambda>c. owner c = group_player g) cs))"

section \<open>Properties of getLastFinishedRound\<close>

lemma winner_is_id: "winner_is (Winner_id i) = (\<lambda>p. player_id p = i)"
  by (rule ext) (simp add: winner_is_def)

lemma find_winner_id:
  "find_winner ps (Winner_id i) =
     (case List.find (\<lambda>p. player_id p = i) ps of None \<Rightarrow> Winner_undefined
      | Some p \<Rightarrow> Winner_player p)"
  by (simp add: find_winner_def winner_is_id)

lemma find_winner_not_id: "find_winner ps w \<noteq> Winner_id i"
  by (simp add: find_winner_def split: option.split)

text \<open>
  Claim C6, as the code has it. \<^verbatim>\<open>getLastFinishedRound\<close> returns \<^verbatim>\<open>null\<close> exactly when
  \<^verbatim>\<open>finishedRounds\<close> is empty. Otherwise it returns a copy of the last element of
  \<^verbatim>\<open>finishedRounds\<close> in which \<^verbatim>\<open>winner\<close> is replaced by the result of looking the stored
  winner up among the players: host, black card and white cards are those of the last
  element, and putting the stored winner back gives that element itself. The returned
  object is not the element: it differs from it whenever the element stores a winner id.
\<close>

theorem getLastFinishedRound_most_recent:
  "(getLastFinishedRound g = None) = (finishedRounds g = [])
   \<and> (finishedRounds g \<noteq> [] \<longrightarrow>
        (\<exists>snap. getLastFinishedRound g = Some snap
           \<and> snap = (last (finishedRounds g))
                      \<lparr>winner := find_winner (players g) (winner (last (finishedRounds g)))\<rparr>
           \<and> snap\<lparr>winner := winner (last (finishedRounds g))\<rparr> = last (finishedRounds g)
           \<and> host snap = host (last (finishedRounds g))
           \<and> blackCard snap = blackCard (last (finishedRounds g))
           \<and> whiteCards snap = whiteCards (last (finishedRounds g))
           \<and> (\<forall>i. winner (last (finishedRounds g)) = Winner_id i
                 \<longrightarrow> snap \<noteq> last (finishedRounds g))))"
proof (intro conjI impI)
  show "(getLastFinishedRound g = None) = (finishedRounds g = [])"
    by (simp add: getLastFinishedRound_def Let_def)
next
  assume ne: "finishedRounds g \<noteq> []"
  let ?r = "last (finishedRounds g)"
  let ?snap = "?r\<lparr>winner := find_winner (players g) (winner ?r)\<rparr>"
  have ret: "getLastFinishedRound g = Some ?snap"
    using ne by (simp add: getLastFinishedRound_def Let_def last_conv_nth)
  have differs: "\<forall>i. winner ?r = Winner_id i \<longrightarrow> ?snap \<noteq> ?r"
  proof (intro allI impI notI)
    fix i
    assume stored: "winner ?r = Winner_id i" and same: "?snap = ?r"
    from same have "winner ?snap = winner ?r" by simp
    with stored have "find_winner (players g) (winner ?r) = Winner_id i" by simp
    then show False by (simp add: find_winner_not_id)
  qed
  from ret differs
  show "\<exists>snap. getLastFinishedRound g = Some snap
           \<and> snap = ?r\<lparr>winner := find_winner (players g) (winner ?r)\<rparr>
           \<and> snap\<lparr>winner := winner ?r\<rparr> = ?r
           \<and> host snap = host ?r
           \<and> blackCard snap = blackCard ?r
           \<and> whiteCards snap = whiteCards ?r
           \<and> (\<forall>i. winner ?r = Winner_id i \<longrightarrow> snap \<noteq> ?r)"
    by (intro exI [of _ ?snap]) simp
qed

theorem getLastFinishedRound_most_recent_witness:
  "finishedRounds (table_game [round_one, round_two]) \<noteq> []
   \<and> getLastFinishedRound (table_game [round_one, round_two])
       = Some (round_two\<lparr>winner := Winner_player bob\<rparr>)
   \<and> getLastFinishedRound (table_game []) = None"
  using getLastFinishedRound_most_recent [of "table_game [round_one, round_two]"]
        getLastFinishedRound_most_recent [of "table_game []"]
  by (simp add: getLastFinishedRound_def table_game_def round_one_def round_two_def
      find_winner_def winner_is_def alice_def bob_def carol_def)

text \<open>
  Claim C6 as the specification words it does not hold: the function does not return the
  last element. In the example the last round stores the winner id \<open>B\<close>, and the returned
  object, which carries Bob's player object instead, is not that round.
\<close>

theorem getLastFinishedRound_not_the_element:
  "finishedRounds (table_game [round_one, round_two]) \<noteq> []
   \<and> last (finishedRounds (table_game [round_one, round_two])) = round_two
   \<and> getLastFinishedRound (table_game [round_one, round_two])
       = Some (round_two\<lparr>winner := Winner_player bob\<rparr>)
   \<and> getLastFinishedRound (table_game [round_one, round_two])
       \<noteq> Some (last (finishedRounds (table_game [round_one, round_two])))"
  by (simp add: getLastFinishedRound_def table_game_def round_one_def round_two_def
      find_winner_def winner_is_def alice_def bob_def carol_def)

text \<open>
  Claim C10. When \<^verbatim>\<open>finishedRounds\<close> is not empty and the last round stores the winner
  id \<open>i\<close>, the returned object carries in \<^verbatim>\<open>winner\<close> the first player of
  \<^verbatim>\<open>game.players\<close> whose id is \<open>i\<close>; when no present player has that id the field is
  \<^verbatim>\<open>undefined\<close>. In neither case is it the raw id, and the call returns an object.
\<close>

theorem getLastFinishedRound_winner_resolved:
  assumes "finishedRounds g \<noteq> []"
    and "winner (last (finishedRounds g)) = Winner_id i"
  shows "\<exists>snap. getLastFinishedRound g = Some snap
           \<and> winner snap \<noteq> Winner_id i
           \<and> (case List.find (\<lambda>p. player_id p = i) (players g) of
                Some p \<Rightarrow> winner snap = Winner_player p \<and> player_id p = i \<and> p \<in> set (players g)
              | None \<Rightarrow> winner snap = Winner_undefined)
           \<and> ((\<forall>p \<in> set (players g). player_id p \<noteq> i) \<longrightarrow> winner snap = Winner_undefined)"
proof -
  let ?r = "last (finishedRounds g)"
  let ?snap = "?r\<lparr>winner := find_winner (players g) (winner ?r)\<rparr>"
  have ret: "getLastFinishedRound g = Some ?snap"
    using assms(1) by (simp add: getLastFinishedRound_def Let_def last_conv_nth)
  have w: "winner ?snap = find_winner (players g) (Winner_id i)"
    using assms(2) by simp
  have not_raw: "winner ?snap \<noteq> Winner_id i"
    unfolding w by (rule find_winner_not_id)
  have found: "(case List.find (\<lambda>p. player_id p = i) (players g) of
                  Some p \<Rightarrow> winner ?snap = Winner_player p \<and> player_id p = i \<and> p \<in> set (players g)
                | None \<Rightarrow> winner ?snap = Winner_undefined)"
  proof (cases "List.find (\<lambda>p. player_id p = i) (players g)")
    case None
    then show ?thesis unfolding w find_winner_id by simp
  next
    case (Some p)
    then have "player_id p = i" and "p \<in> set (players g)"
      by (auto simp: find_Some_iff)
    with Some show ?thesis unfolding w find_winner_id by simp
  qed
  have absent: "(\<forall>p \<in> set (players g). player_id p \<noteq> i) \<longrightarrow> winner ?snap = Winner_undefined"
  proof
    assume "\<forall>p \<in> set (players g). player_id p \<noteq> i"
    then have "List.find (\<lambda>p. player_id p = i) (players g) = None"
      by (simp add: find_None_iff)
    then show "winner ?snap = Winner_undefined"
      unfolding w find_winner_id by simp
  qed
  from ret not_raw found absent show ?thesis by blast
qed

theorem getLastFinishedRound_winner_resolved_witness:
  "getLastFinishedRound (table_game [round_one, round_two])
       = Some (round_two\<lparr>winner := Winner_player bob\<rparr>)
   \<and> getLastFinishedRound (table_game [round_one, round_gone])
       = Some (round_two\<lparr>winner := Winner_undefined\<rparr>)"
proof -
  have ne: "finishedRounds (table_game [round_one, round_two]) \<noteq> []"
    and ne': "finishedRounds (table_game [round_one, round_gone]) \<noteq> []"
    by (simp_all add: table_game_def)
  have w: "winner (last (finishedRounds (table_game [round_one, round_two]))) = Winner_id ''B''"
    and w': "winner (last (finishedRounds (table_game [round_one, round_gone]))) = Winner_id ''Z''"
    by (simp_all add: table_game_def round_two_def round_gone_def)
  show ?thesis
    using getLastFinishedRound_winner_resolved [OF ne w]
          getLastFinishedRound_winner_resolved [OF ne' w']
    by (simp add: getLastFinishedRound_def table_game_def round_one_def round_two_def
        round_gone_def find_winner_def winner_is_def alice_def bob_def carol_def)
qed

section \<open>Sequencing lemmas\<close>

lemma bind_returned:
  assumes "bind m f w = (Inr y, w'')"
  obtains x w' where "m w = (Inr x, w')" and "f x w' = (Inr y, w'')"
  using assms by (auto simp: bind_def split: prod.splits sum.splits)

lemma call_returned:
  assumes "call c w = (r, w')"
  obtains s' where "c (store w) = (r, s')" and "w' = w\<lparr>store := s'\<rparr>"
  using assms by (auto simp: call_def split: prod.splits)

lemma destructure_returned:
  assumes "destructure k data body w = (Inr y, w')"
  shows "body data w = (Inr y, w')"
  using assms by (auto simp: destructure_def throw_def split: if_splits)

lemma emit_game_eq:
  "emit_game db room ev h w =
     (Inr (), w\<lparr>emitted := emitted w @
        [\<lparr>target = room, event = ev, payload = P_game (view db h (store w))\<rparr>]\<rparr>)"
  by (simp add: emit_game_def emit_def)

section \<open>What a handler has done when it returns\<close>

text \<open>
  \<^verbatim>\<open>game:play-white-cards\<close>: the game was fetched, \<^verbatim>\<open>playWhiteCards\<close> returned, and the
  room got \<^verbatim>\<open>game:edit\<close> with the game and \<^verbatim>\<open>game:cards-played\<close> with the cards of the
  payload, in this order.
\<close>

lemma play_white_cards_effects:
  assumes "play_white_cards db playWhiteCards gameId cards playerId w = (Inr u, w')"
  shows "\<exists>h s1 game s2.
           getGame db gameId (store w) = (Inr h, s1)
         \<and> playWhiteCards h cards playerId s1 = (Inr game, s2)
         \<and> w' = w\<lparr>store := s2,
                   emitted := emitted w @
                     [\<lparr>target = room_of gameId, event = ''game:edit'',
                       payload = P_game (view db game s2)\<rparr>,
                      \<lparr>target = room_of gameId, event = ''game:cards-played'',
                       payload = P_value cards\<rparr>]\<rparr>"
proof -
  from assms obtain h w1 where
      g: "call (getGame db gameId) w = (Inr h, w1)"
      and rest1: "bind (call (playWhiteCards h cards playerId)) (\<lambda>game.
                    bind (emit_game db (room_of gameId) ''game:edit'' game) (\<lambda>_.
                    emit (room_of gameId) ''game:cards-played'' (P_value cards))) w1 = (Inr u, w')"
    unfolding play_white_cards_def by (rule bind_returned)
  from g obtain s1 where s1: "getGame db gameId (store w) = (Inr h, s1)"
      and w1: "w1 = w\<lparr>store := s1\<rparr>"
    by (rule call_returned)
  from rest1 obtain game w2 where
      p: "call (playWhiteCards h cards playerId) w1 = (Inr game, w2)"
      and rest2: "bind (emit_game db (room_of gameId) ''game:edit'' game) (\<lambda>_.
                    emit (room_of gameId) ''game:cards-played'' (P_value cards)) w2 = (Inr u, w')"
    by (rule bind_returned)
  from p obtain s2 where s2: "playWhiteCards h cards playerId (store w1) = (Inr game, s2)"
      and w2: "w2 = w1\<lparr>store := s2\<rparr>"
    by (rule call_returned)
  from rest2 have "w' = w\<lparr>store := s2,
                   emitted := emitted w @
                     [\<lparr>target = room_of gameId, event = ''game:edit'',
                       payload = P_game (view db game s2)\<rparr>,
                      \<lparr>target = room_of gameId, event = ''game:cards-played'',
                       payload = P_value cards\<rparr>]\<rparr>"
    by (simp add: bind_def emit_game_eq emit_def w1 w2)
  with s1 s2 show ?thesis by (auto simp: w1)
qed

text \<open>
  \<^verbatim>\<open>game:discard-white-card\<close>: the game was fetched, \<^verbatim>\<open>discardWhiteCard\<close> returned, and
  the room got \<^verbatim>\<open>game:edit\<close> with the game.
\<close>

lemma discard_white_card_effects:
  assumes "discard_white_card db discardWhiteCard gameId cards playerId w = (Inr u, w')"
  shows "\<exists>h s1 game s2.
           getGame db gameId (store w) = (Inr h, s1)
         \<and> discardWhiteCard h cards playerId s1 = (Inr game, s2)
         \<and> w' = w\<lparr>store := s2,
                   emitted := emitted w @
                     [\<lparr>target = room_of gameId, event = ''game:edit'',
                       payload = P_game (view db game s2)\<rparr>]\<rparr>"
proof -
  from assms obtain h w1 where
      g: "call (getGame db gameId) w = (Inr h, w1)"
      and rest1: "bind (call (discardWhiteCard h cards playerId)) (\<lambda>game.
                    emit_game db (room_of gameId) ''game:edit'' game) w1 = (Inr u, w')"
    unfolding discard_white_card_def by (rule bind_returned)
  from g obtain s1 where s1: "getGame db gameId (store w) = (Inr h, s1)"
      and w1: "w1 = w\<lparr>store := s1\<rparr>"
    by (rule call_returned)
  from rest1 obtain game w2 where
      p: "call (discardWhiteCard h cards playerId) w1 = (Inr game, w2)"
      and rest2: "emit_game db (room_of gameId) ''game:edit'' game w2 = (Inr u, w')"
    by (rule bind_returned)
  from p obtain s2 where s2: "discardWhiteCard h cards playerId (store w1) = (Inr game, s2)"
      and w2: "w2 = w1\<lparr>store := s2\<rparr>"
    by (rule call_returned)
  from rest2 have "w' = w\<lparr>store := s2,
                   emitted := emitted w @
                     [\<lparr>target = room_of gameId, event = ''game:edit'',
                       payload = P_game (view db game s2)\<rparr>]\<rparr>"
    by (simp add: emit_game_eq w1 w2)
  with s1 s2 show ?thesis by (auto simp: w1)
qed

text \<open>
  \<^verbatim>\<open>game:leave\<close>: the game was fetched, \<^verbatim>\<open>removePlayer\<close> returned, the room got
  \<^verbatim>\<open>game:edit\<close> with the game and \<^verbatim>\<open>game:kick\<close> with the player id of the payload, and
  \<^verbatim>\<open>db.removeGame\<close> ran exactly when the game had no player left.
\<close>

lemma leave_effects:
  assumes "leave db removePlayer gameId playerId w = (Inr u, w')"
  shows "\<exists>h s1 game s2.
           getGame db gameId (store w) = (Inr h, s1)
         \<and> removePlayer h playerId s1 = (Inr game, s2)
         \<and> emitted w' = emitted w @
              [\<lparr>target = room_of gameId, event = ''game:edit'',
                payload = P_game (view db game s2)\<rparr>,
               \<lparr>target = room_of gameId, event = ''game:kick'', payload = P_value playerId\<rparr>]
         \<and> (if players (view db game s2) = []
             then removeGame db game s2 = (Inr (), store w')
             else store w' = s2)"
proof -
  from assms obtain h w1 where
      g: "call (getGame db gameId) w = (Inr h, w1)"
      and rest1: "bind (call (removePlayer h playerId)) (\<lambda>game.
                    bind (emit_game db (room_of gameId) ''game:edit'' game) (\<lambda>_.
                    bind (emit (room_of gameId) ''game:kick'' (P_value playerId)) (\<lambda>_.
                    (\<lambda>w. if players (view db game (store w)) = []
                         then call (removeGame db game) w
                         else returns () w)))) w1 = (Inr u, w')"
    unfolding leave_def by (rule bind_returned)
  from g obtain s1 where s1: "getGame db gameId (store w) = (Inr h, s1)"
      and w1: "w1 = w\<lparr>store := s1\<rparr>"
    by (rule call_returned)
  from rest1 obtain game w2 where
      p: "call (removePlayer h playerId) w1 = (Inr game, w2)"
      and rest2: "bind (emit_game db (room_of gameId) ''game:edit'' game) (\<lambda>_.
                    bind (emit (room_of gameId) ''game:kick'' (P_value playerId)) (\<lambda>_.
                    (\<lambda>w. if players (view db game (store w)) = []
                         then call (removeGame db game) w
                         else returns () w))) w2 = (Inr u, w')"
    by (rule bind_returned)
  from p obtain s2 where s2: "removePlayer h playerId (store w1) = (Inr game, s2)"
      and w2: "w2 = w1\<lparr>store := s2\<rparr>"
    by (rule call_returned)
  from rest2 have
    "emitted w' = emitted w @
              [\<lparr>target = room_of gameId, event = ''game:edit'',
                payload = P_game (view db game s2)\<rparr>,
               \<lparr>target = room_of gameId, event = ''game:kick'', payload = P_value playerId\<rparr>]
     \<and> (if players (view db game s2) = []
         then removeGame db game s2 = (Inr (), store w')
         else store w' = s2)"
    by (auto simp: bind_def emit_game_eq emit_def call_def returns_def w1 w2
        split: if_splits prod.splits)
  with s1 s2 show ?thesis by (auto simp: w1)
qed

text \<open>No step of \<^verbatim>\<open>game:leave\<close> touches the pending timers, however the handler ends.\<close>

lemma leave_keeps_timers:
  "timers (snd (leave db removePlayer gameId playerId w)) = timers w"
  by (simp add: leave_def bind_def call_def emit_game_eq emit_def returns_def
      split: prod.splits sum.splits)

lemma leave_listener_keeps_timers:
  "timers (snd (leave_listener db removePlayer data w)) = timers w"
  by (simp add: leave_listener_def destructure_def throw_def leave_keeps_timers)

lemma handleMessage_timers:
  "timers (handleMessage sid key listener data w) = timers (snd (listener data w))"
  by (simp add: handleMessage_def split: prod.splits sum.splits)

section \<open>Failures stay with the sender\<close>

lemma unknown_leave_throws:
  "leave_listener reference_db ref_removePlayer unknown_leave demo_world
     = (Inl (Error ''GameNotFound''), demo_world)"
  by code_simp

text \<open>
  Claim C3. When the listener of an inbound command throws, the wrapper adds exactly one
  emission to what the listener had emitted before the throw: the event \<^verbatim>\<open>error\<close>, with a
  text built from the event name and the error's message, addressed to the id of the
  originating socket. Nothing is added for any other room, the room of the session
  included, and a connection outside the sender's own room receives nothing of it. The
  store and the timers are as the listener left them.
\<close>

theorem handleMessage_error_private:
  assumes "listener data w = (Inl err, w')"
  shows "emitted (handleMessage sid key listener data w)
           = emitted w' @ [\<lparr>target = sid, event = ''error'',
                             payload = P_value (Str (error_text key err))\<rparr>]
       \<and> store (handleMessage sid key listener data w) = store w'
       \<and> timers (handleMessage sid key listener data w) = timers w'
       \<and> (\<forall>room. room \<noteq> sid \<longrightarrow>
             filter (\<lambda>e. target e = room) (emitted (handleMessage sid key listener data w))
               = filter (\<lambda>e. target e = room) (emitted w'))
       \<and> (\<forall>members c. c \<notin> set (members sid) \<longrightarrow>
             received members (emitted (handleMessage sid key listener data w)) c
               = received members (emitted w') c)"
  using assms by (simp add: handleMessage_def received_def)

theorem handleMessage_error_private_witness:
  "leave_listener reference_db ref_removePlayer unknown_leave demo_world
     = (Inl (Error ''GameNotFound''), demo_world)
   \<and> emitted (handleMessage ''A'' ''game:leave'' (leave_listener reference_db ref_removePlayer)
               unknown_leave demo_world)
     = [\<lparr>target = ''A'', event = ''error'',
         payload = P_value (Str ''error on \"game:leave\" listener: GameNotFound'')\<rparr>]
   \<and> received demo_members
        (emitted (handleMessage ''A'' ''game:leave'' (leave_listener reference_db ref_removePlayer)
                    unknown_leave demo_world)) ''B'' = []"
  using handleMessage_error_private
          [of "leave_listener reference_db ref_removePlayer" unknown_leave demo_world
              "Error ''GameNotFound''" demo_world "''A''" "''game:leave''",
           OF unknown_leave_throws]
        unknown_leave_throws
  by (simp add: error_text_def demo_world_def received_def demo_members_def)

section \<open>Finishing a round\<close>

lemma finish_succeeds:
  "finish_round_listener reference_db ref_finishRound finish_data after_play = (Inr (), after_finish)"
  by code_simp

lemma after_finish_read:
  "ref_getLastFinishedRound ''g1'' (store after_finish)
     = (Inr (Some announced_round), store after_finish)"
  by code_simp

lemma after_finish_facts:
  "getGame reference_db (get_prop ''gameId'' finish_data) (store after_play)
     = (Inr ''g1'', store after_play)"
  "room_of (get_prop ''gameId'' finish_data) = ''game-g1''"
  "view reference_db ''g1'' (store after_finish) = second_round_game"
  "length (timers after_play) = 0"
  by code_simp+

text \<open>
  Claim C4. When the listener of \<^verbatim>\<open>game:finish-round\<close> returns, the game was fetched and
  \<^verbatim>\<open>finishRound\<close> returned; the handler has emitted exactly one event, \<^verbatim>\<open>game:edit\<close> with
  the game, to the room of the session, and has scheduled exactly one timer, with the
  fixed delay 500, for that room and the fetched game. When that timer fires and
  \<^verbatim>\<open>getLastFinishedRound()\<close> of the game returns, \<^verbatim>\<open>game:round-winner\<close> with that result
  goes to the same room, after the \<^verbatim>\<open>game:edit\<close> event.
\<close>

theorem finish_round_then_winner:
  assumes ok: "finish_round_listener db finishRound data w = (Inr u, w')"
  shows "\<exists>game result s1 s2.
           getGame db (get_prop ''gameId'' data) (store w) = (Inr game, s1)
         \<and> finishRound game (get_prop ''winnerPlayerId'' data) s1 = (Inr result, s2)
         \<and> handleMessage sid ''game:finish-round'' (finish_round_listener db finishRound) data w = w'
         \<and> store w' = s2
         \<and> emitted w' = emitted w @
               [\<lparr>target = room_of (get_prop ''gameId'' data), event = ''game:edit'',
                 payload = P_game (view db result s2)\<rparr>]
         \<and> timers w' = timers w @
               [\<lparr>delay = 500, timer_room = room_of (get_prop ''gameId'' data), timer_game = game\<rparr>]
         \<and> (\<forall>r s3. lastFinishedRound game s2 = (Inr r, s3) \<longrightarrow>
               fire_timer lastFinishedRound (length (timers w)) w'
                 = (Inr (), w'\<lparr>store := s3, timers := timers w,
                               emitted := emitted w' @
                                 [\<lparr>target = room_of (get_prop ''gameId'' data),
                                   event = ''game:round-winner'', payload = P_round r\<rparr>]\<rparr>))"
proof -
  let ?gid = "get_prop ''gameId'' data"
  let ?win = "get_prop ''winnerPlayerId'' data"
  from ok have body: "finish_round db finishRound ?gid ?win w = (Inr u, w')"
    unfolding finish_round_listener_def by (rule destructure_returned)
  from body obtain game w1 where
      g: "call (getGame db ?gid) w = (Inr game, w1)"
      and rest1: "bind (call (finishRound game ?win)) (\<lambda>result.
                    bind (emit_game db (room_of ?gid) ''game:edit'' result) (\<lambda>_.
                    setTimeout \<lparr>delay = 500, timer_room = room_of ?gid, timer_game = game\<rparr>)) w1
                  = (Inr u, w')"
    unfolding finish_round_def by (rule bind_returned)
  from g obtain s1 where s1: "getGame db ?gid (store w) = (Inr game, s1)"
      and w1: "w1 = w\<lparr>store := s1\<rparr>"
    by (rule call_returned)
  from rest1 obtain result w2 where
      f: "call (finishRound game ?win) w1 = (Inr result, w2)"
      and rest2: "bind (emit_game db (room_of ?gid) ''game:edit'' result) (\<lambda>_.
                    setTimeout \<lparr>delay = 500, timer_room = room_of ?gid, timer_game = game\<rparr>) w2
                  = (Inr u, w')"
    by (rule bind_returned)
  from f obtain s2 where s2: "finishRound game ?win (store w1) = (Inr result, s2)"
      and w2: "w2 = w1\<lparr>store := s2\<rparr>"
    by (rule call_returned)
  from rest2 have w': "w' = w\<lparr>store := s2,
      emitted := emitted w @ [\<lparr>target = room_of ?gid, event = ''game:edit'',
                                payload = P_game (view db result s2)\<rparr>],
      timers := timers w @ [\<lparr>delay = 500, timer_room = room_of ?gid, timer_game = game\<rparr>]\<rparr>"
    by (simp add: bind_def emit_game_eq setTimeout_def w1 w2)
  have wrapper:
    "handleMessage sid ''game:finish-round'' (finish_round_listener db finishRound) data w = w'"
    using ok by (simp add: handleMessage_def)
  have fire: "\<forall>r s3. lastFinishedRound game s2 = (Inr r, s3) \<longrightarrow>
               fire_timer lastFinishedRound (length (timers w)) w'
                 = (Inr (), w'\<lparr>store := s3, timers := timers w,
                               emitted := emitted w' @
                                 [\<lparr>target = room_of ?gid,
                                   event = ''game:round-winner'', payload = P_round r\<rparr>]\<rparr>)"
    by (simp add: w' fire_timer_def round_winner_callback_def bind_def call_def emit_def)
  from s1 s2 wrapper fire show ?thesis
    by (intro exI [of _ game] exI [of _ result] exI [of _ s1] exI [of _ s2])
       (simp add: w' w1)
qed

theorem finish_round_then_winner_witness:
  "finish_round_listener reference_db ref_finishRound finish_data after_play = (Inr (), after_finish)
   \<and> emitted after_finish = emitted after_play @
        [\<lparr>target = ''game-g1'', event = ''game:edit'', payload = P_game second_round_game\<rparr>]
   \<and> timers after_finish = [\<lparr>delay = 500, timer_room = ''game-g1'', timer_game = ''g1''\<rparr>]
   \<and> emitted (snd (fire_timer ref_getLastFinishedRound 0 after_finish))
       = emitted after_play @
        [\<lparr>target = ''game-g1'', event = ''game:edit'', payload = P_game second_round_game\<rparr>,
         round_winner_event]"
proof -
  from finish_round_then_winner [OF finish_succeeds, of "''A''" ref_getLastFinishedRound]
  obtain game result s1 s2 where
      g: "getGame reference_db (get_prop ''gameId'' finish_data) (store after_play) = (Inr game, s1)"
    and st: "store after_finish = s2"
    and em: "emitted after_finish = emitted after_play @
               [\<lparr>target = room_of (get_prop ''gameId'' finish_data), event = ''game:edit'',
                 payload = P_game (view reference_db result s2)\<rparr>]"
    and ti: "timers after_finish = timers after_play @
               [\<lparr>delay = 500, timer_room = room_of (get_prop ''gameId'' finish_data),
                 timer_game = game\<rparr>]"
    and fire: "\<forall>r s3. ref_getLastFinishedRound game s2 = (Inr r, s3) \<longrightarrow>
               fire_timer ref_getLastFinishedRound (length (timers after_play)) after_finish
                 = (Inr (), after_finish\<lparr>store := s3, timers := timers after_play,
                               emitted := emitted after_finish @
                                 [\<lparr>target = room_of (get_prop ''gameId'' finish_data),
                                   event = ''game:round-winner'', payload = P_round r\<rparr>]\<rparr>)"
    and fr: "ref_finishRound game (get_prop ''winnerPlayerId'' finish_data) s1 = (Inr result, s2)"
    by blast
  from g have game: "game = ''g1''" by (simp add: after_finish_facts)
  from fr game have result: "result = ''g1''"
    by (auto simp: ref_finishRound_def on_session_def finish_data_def
        split: json.splits option.splits sum.splits)
  from fire after_finish_read
  have fired: "fire_timer ref_getLastFinishedRound 0 after_finish
                 = (Inr (), after_finish\<lparr>store := store after_finish, timers := timers after_play,
                               emitted := emitted after_finish @
                                 [\<lparr>target = ''game-g1'', event = ''game:round-winner'',
                                   payload = P_round (Some announced_round)\<rparr>]\<rparr>)"
    by (simp add: game st [symmetric] after_finish_facts)
  have t0: "timers after_play = []"
    using after_finish_facts(4) by simp
  show ?thesis
    using finish_succeeds em ti fired
    by (simp add: game result st [symmetric] after_finish_facts t0 round_winner_event_def)
qed

section \<open>The timer and the end of the session\<close>

lemma after_leaves_timers:
  "timers after_leaves = [\<lparr>delay = 500, timer_room = ''game-g1'', timer_game = ''g1''\<rparr>]"
  by code_simp

lemma after_leaves_read:
  "ref_getLastFinishedRound ''g1'' (store after_leaves)
     = (Inr (Some announced_round), store after_leaves)"
  by code_simp

text \<open>
  Claim C5, as the code has it. The announcement is a one-shot that nothing cancels. A
  \<^verbatim>\<open>game:leave\<close> command, whether it removes the session or not and whether it returns or
  throws, leaves every pending timer in place. A pending timer that fires emits
  \<^verbatim>\<open>game:round-winner\<close> to its room with the result of \<^verbatim>\<open>getLastFinishedRound()\<close> of the
  game object it holds, whatever the directory contains by then; it ends in an uncaught
  exception only when that call throws, and then emits nothing.
\<close>

theorem round_winner_timer_survives_removal:
  "timers (handleMessage sid ''game:leave'' (leave_listener db removePlayer) data w) = timers w
   \<and> (\<forall>r s'. i < length (timers w)
          \<and> lastFinishedRound (timer_game (timers w ! i)) (store w) = (Inr r, s') \<longrightarrow>
        fire_timer lastFinishedRound i w
          = (Inr (), w\<lparr>store := s', timers := take i (timers w) @ drop (Suc i) (timers w),
                       emitted := emitted w @
                         [\<lparr>target = timer_room (timers w ! i), event = ''game:round-winner'',
                           payload = P_round r\<rparr>]\<rparr>))
   \<and> (\<forall>e s'. i < length (timers w)
          \<and> lastFinishedRound (timer_game (timers w ! i)) (store w) = (Inl e, s') \<longrightarrow>
        fire_timer lastFinishedRound i w
          = (Inl e, w\<lparr>store := s', timers := take i (timers w) @ drop (Suc i) (timers w)\<rparr>))"
  by (simp add: handleMessage_timers leave_listener_keeps_timers fire_timer_def
      round_winner_callback_def bind_def call_def emit_def)

theorem round_winner_timer_survives_removal_witness:
  "timers (leave_by ''C'' (leave_by ''B'' (leave_by ''A'' after_finish))) = timers after_finish
   \<and> emitted (snd (fire_timer ref_getLastFinishedRound 0 after_leaves))
       = emitted after_leaves @ [round_winner_event]"
proof -
  have kept: "timers (leave_by ''C'' (leave_by ''B'' (leave_by ''A'' after_finish)))
                = timers after_finish"
    unfolding leave_by_def
    using round_winner_timer_survives_removal
            [of _ reference_db ref_removePlayer _ _ 0 ref_getLastFinishedRound]
    by simp
  have pending: "0 < length (timers after_leaves)
      \<and> ref_getLastFinishedRound (timer_game (timers after_leaves ! 0)) (store after_leaves)
          = (Inr (Some announced_round), store after_leaves)"
    by (simp add: after_leaves_timers after_leaves_read)
  from pending
    round_winner_timer_survives_removal
      [of "''C''" reference_db ref_removePlayer "leave_data ''C''" after_leaves 0
          ref_getLastFinishedRound]
  have "fire_timer ref_getLastFinishedRound 0 after_leaves
          = (Inr (), after_leaves\<lparr>store := store after_leaves,
               timers := take 0 (timers after_leaves) @ drop (Suc 0) (timers after_leaves),
               emitted := emitted after_leaves @
                 [\<lparr>target = timer_room (timers after_leaves ! 0), event = ''game:round-winner'',
                   payload = P_round (Some announced_round)\<rparr>]\<rparr>)"
    by blast
  then have "emitted (snd (fire_timer ref_getLastFinishedRound 0 after_leaves))
       = emitted after_leaves @ [round_winner_event]"
    by (simp add: after_leaves_timers round_winner_event_def)
  with kept show ?thesis by simp
qed

text \<open>
  Claim C5 as the specification words it does not hold. In the example the round is
  finished, then all three players leave: the game has no player, the directory no longer
  resolves its id (it did after the round was finished), and the timer is still pending.
  When it fires, the announcement is emitted.
\<close>

theorem announcement_after_session_removed:
  "players (view reference_db ''g1'' (store after_leaves)) = []
   \<and> fst (getGame reference_db (Str ''g1'') (store after_leaves)) = Inl (Error ''GameNotFound'')
   \<and> fst (getGame reference_db (Str ''g1'') (store after_finish)) = Inr ''g1''
   \<and> timers after_leaves = [\<lparr>delay = 500, timer_room = ''game-g1'', timer_game = ''g1''\<rparr>]
   \<and> fire_timer ref_getLastFinishedRound 0 after_leaves
       = (Inr (), after_leaves\<lparr>timers := [],
                               emitted := emitted after_leaves @ [round_winner_event]\<rparr>)"
  by code_simp

section \<open>Hidden cards\<close>

subsection \<open>The grouping loop\<close>

lemma add_card_players:
  "map group_player (add_card x gs)
     = (if owner x \<in> set (map group_player gs) then map group_player gs
        else map group_player gs @ [owner x])"
  by (induction gs) auto

lemma add_card_member:
  assumes "distinct (map group_player gs)" and "g' \<in> set (add_card x gs)"
  shows "(g' \<in> set gs \<and> group_player g' \<noteq> owner x)
       \<or> (\<exists>g \<in> set gs. group_player g = owner x \<and> g' = g\<lparr>group_cards := group_cards g @ [x]\<rparr>)
       \<or> (owner x \<notin> set (map group_player gs) \<and> g' = \<lparr>group_player = owner x, group_cards = [x]\<rparr>)"
  using assms by (induction gs) (auto split: if_splits simp: image_iff)

lemma add_card_groups:
  assumes inv: "groups_of cs gs"
  shows "groups_of (cs @ [x]) (add_card x gs)"
proof -
  from inv have d: "distinct (map group_player gs)"
    and s: "set (map group_player gs) = owner ` set cs"
    and c: "\<forall>g \<in> set gs. group_cards g = filter (\<lambda>c. owner c = group_player g) cs"
    by (simp_all add: groups_of_def)
  have d': "distinct (map group_player (add_card x gs))"
    using d by (simp add: add_card_players)
  have s': "set (map group_player (add_card x gs)) = owner ` set (cs @ [x])"
    using s by (auto simp: add_card_players)
  have c': "\<forall>g' \<in> set (add_card x gs).
              group_cards g' = filter (\<lambda>c. owner c = group_player g') (cs @ [x])"
  proof
    fix g'
    assume "g' \<in> set (add_card x gs)"
    from add_card_member [OF d this]
    consider (other) "g' \<in> set gs" and "group_player g' \<noteq> owner x"
      | (joined) g where "g \<in> set gs" and "group_player g = owner x"
          and "g' = g\<lparr>group_cards := group_cards g @ [x]\<rparr>"
      | (created) "owner x \<notin> set (map group_player gs)"
          and "g' = \<lparr>group_player = owner x, group_cards = [x]\<rparr>"
      by blast
    then show "group_cards g' = filter (\<lambda>c. owner c = group_player g') (cs @ [x])"
    proof cases
      case other
      with c show ?thesis by auto
    next
      case joined
      with c show ?thesis by auto
    next
      case created
      with s have "filter (\<lambda>c. owner c = owner x) cs = []"
        by (auto simp: filter_empty_conv image_iff)
      with created show ?thesis by simp
    qed
  qed
  from d' s' c' show ?thesis
    unfolding groups_of_def by blast
qed

lemma group_loop_groups:
  "group_loop cs gs = Inr gs' \<Longrightarrow> groups_of seen gs \<Longrightarrow> groups_of (seen @ cs) gs'"
proof (induction cs arbitrary: gs seen)
  case Nil
  then show ?case by simp
next
  case (Cons c cs)
  from Cons.prems(1) have run: "group_loop cs (add_card c gs) = Inr gs'"
    by (simp split: if_splits)
  from Cons.IH [OF run add_card_groups [OF Cons.prems(2)]]
  show ?case by simp
qed

lemma group_loop_throws:
  "(\<exists>e. group_loop cs gs = Inl e)
     = (filter (\<lambda>c. owner c \<in> set object_prototype_names) cs \<noteq> [])"
  by (induction cs arbitrary: gs) auto

lemma object_values_set: "set (object_values gs) = set gs"
  by (auto simp: object_values_def)

lemma object_values_distinct:
  assumes "distinct (map group_player gs)"
  shows "distinct (map group_player (object_values gs))"
proof -
  from assms have d: "distinct gs" and inj: "inj_on group_player (set gs)"
    by (simp_all add: distinct_map)
  from d have "distinct (object_values gs)"
    by (auto simp: object_values_def)
  with inj show ?thesis
    by (simp add: distinct_map object_values_set)
qed

lemma groups_of_object_values:
  "groups_of cs gs \<Longrightarrow> groups_of cs (object_values gs)"
  by (simp add: groups_of_def object_values_set object_values_distinct)

lemma groupCardsByPlayer_groups:
  assumes "groupCardsByPlayer cs = Inr gs"
  shows "groups_of cs gs"
proof -
  from assms obtain gs0 where run: "group_loop cs [] = Inr gs0" and gs: "gs = object_values gs0"
    by (auto simp: groupCardsByPlayer_def split: sum.splits)
  have "groups_of [] []" by (simp add: groups_of_def)
  from group_loop_groups [OF run this] have "groups_of cs gs0" by simp
  then show ?thesis unfolding gs by (rule groups_of_object_values)
qed

lemma groupCardsByPlayer_throws:
  "(\<exists>e. groupCardsByPlayer cs = Inl e)
     = (filter (\<lambda>c. owner c \<in> set object_prototype_names) cs \<noteq> [])"
proof -
  have "(\<exists>e. groupCardsByPlayer cs = Inl e) = (\<exists>e. group_loop cs [] = Inl e)"
    by (auto simp: groupCardsByPlayer_def split: sum.splits)
  then show ?thesis by (simp add: group_loop_throws)
qed

text \<open>Two examples of what is JavaScript's own in the loop.\<close>

lemma groupCardsByPlayer_index_keys_first:
  "groupCardsByPlayer [\<lparr>card = ''x'', owner = ''b'', hidden = True\<rparr>,
                       \<lparr>card = ''y'', owner = ''10'', hidden = True\<rparr>,
                       \<lparr>card = ''z'', owner = ''2'', hidden = True\<rparr>,
                       \<lparr>card = ''w'', owner = ''b'', hidden = False\<rparr>]
     = Inr [\<lparr>group_player = ''2'', group_cards = [\<lparr>card = ''z'', owner = ''2'', hidden = True\<rparr>]\<rparr>,
            \<lparr>group_player = ''10'', group_cards = [\<lparr>card = ''y'', owner = ''10'', hidden = True\<rparr>]\<rparr>,
            \<lparr>group_player = ''b'', group_cards = [\<lparr>card = ''x'', owner = ''b'', hidden = True\<rparr>,
                                                   \<lparr>card = ''w'', owner = ''b'', hidden = False\<rparr>]\<rparr>]"
  by code_simp

lemma groupCardsByPlayer_prototype_name_throws:
  "groupCardsByPlayer [\<lparr>card = ''x'', owner = ''b'', hidden = True\<rparr>,
                       \<lparr>card = ''y'', owner = ''constructor'', hidden = True\<rparr>]
     = Inl (Error ''Cannot read properties of undefined (reading push)'')"
  by code_simp

subsection \<open>What the view shows and what the room receives\<close>

lemma face_text_card_face_of:
  "face_text (card_face_of decodeHtml isHost c)
     = (if hidden c then hidden_mark else decodeHtml (card c))"
  by (simp add: card_face_of_def)

lemma Game_round_not_sent:
  "\<not> allCardsSent g \<Longrightarrow> Game_round decodeHtml playerId g = Inr []"
  by (simp add: Game_round_def Round_cards_def)

lemma Game_round_throws:
  assumes "allCardsSent g"
    and "filter (\<lambda>c. owner c \<in> set object_prototype_names) (whiteCards (current_round g)) \<noteq> []"
  shows "\<exists>e. Game_round decodeHtml playerId g = Inl e"
proof -
  from assms(2) obtain e where "groupCardsByPlayer (whiteCards (current_round g)) = Inl e"
    using groupCardsByPlayer_throws by blast
  with assms(1) show ?thesis
    by (simp add: Game_round_def Round_cards_def)
qed

lemma Game_round_shows:
  assumes sent: "allCardsSent g"
    and plain: "filter (\<lambda>c. owner c \<in> set object_prototype_names) (whiteCards (current_round g)) = []"
  shows "\<exists>v. Game_round decodeHtml playerId g = Inr v
           \<and> distinct (map fst v)
           \<and> set (map fst v) = owner ` set (whiteCards (current_round g))
           \<and> (\<forall>grp \<in> set v.
                 map face_text (snd grp)
                   = map (\<lambda>c. if hidden c then hidden_mark else decodeHtml (card c))
                         (filter (\<lambda>c. owner c = fst grp) (whiteCards (current_round g))))"
proof -
  let ?cs = "whiteCards (current_round g)"
  let ?face = "card_face_of decodeHtml (playerIsHost playerId g)"
  let ?block = "\<lambda>grp. (group_player grp, map ?face (group_cards grp))"
  from plain have "\<not> (\<exists>e. groupCardsByPlayer ?cs = Inl e)"
    by (simp add: groupCardsByPlayer_throws)
  then obtain gs where gs: "groupCardsByPlayer ?cs = Inr gs"
    by (cases "groupCardsByPlayer ?cs") auto
  from groupCardsByPlayer_groups [OF gs]
  have d: "distinct (map group_player gs)"
    and s: "set (map group_player gs) = owner ` set ?cs"
    and c: "\<forall>grp \<in> set gs. group_cards grp = filter (\<lambda>c. owner c = group_player grp) ?cs"
    by (simp_all add: groups_of_def)
  have ret: "Game_round decodeHtml playerId g = Inr (map ?block gs)"
    using sent gs by (simp add: Game_round_def Round_cards_def)
  have keys: "map fst (map ?block gs) = map group_player gs"
    by (simp add: comp_def)
  have texts: "\<forall>grp \<in> set (map ?block gs).
                 map face_text (snd grp)
                   = map (\<lambda>c. if hidden c then hidden_mark else decodeHtml (card c))
                         (filter (\<lambda>c. owner c = fst grp) ?cs)"
    using c by (auto simp: face_text_card_face_of comp_def)
  from ret d s texts show ?thesis
    unfolding keys [symmetric] by blast
qed

lemma Game_round_same_texts:
  "map_sum (\<lambda>e. e) (map (\<lambda>grp. (fst grp, map face_text (snd grp)))) (Game_round decodeHtml playerId g)
     = map_sum (\<lambda>e. e) (map (\<lambda>grp. (fst grp, map face_text (snd grp)))) (Game_round decodeHtml playerId' g)"
  by (simp add: Game_round_def Round_cards_def face_text_card_face_of comp_def split: sum.splits)

lemma play_white_cards_received:
  assumes ok: "play_white_cards_listener db playWhiteCards data w = (Inr u, w')"
  shows "\<exists>h s1 game.
           getGame db (get_prop ''gameId'' data) (store w) = (Inr h, s1)
         \<and> playWhiteCards h (get_prop ''cards'' data) (get_prop ''playerId'' data) s1
             = (Inr game, store w')
         \<and> (\<forall>members c. c \<in> set (members (room_of (get_prop ''gameId'' data))) \<longrightarrow>
               received members (drop (length (emitted w)) (emitted w')) c
                 = [(''game:edit'', P_game (view db game (store w'))),
                    (''game:cards-played'', P_value (get_prop ''cards'' data))])"
proof -
  from ok have body: "play_white_cards db playWhiteCards (get_prop ''gameId'' data)
                        (get_prop ''cards'' data) (get_prop ''playerId'' data) w = (Inr u, w')"
    unfolding play_white_cards_listener_def by (rule destructure_returned)
  from play_white_cards_effects [OF body] obtain h s1 game s2 where
      g: "getGame db (get_prop ''gameId'' data) (store w) = (Inr h, s1)"
    and p: "playWhiteCards h (get_prop ''cards'' data) (get_prop ''playerId'' data) s1 = (Inr game, s2)"
    and w': "w' = w\<lparr>store := s2,
                   emitted := emitted w @
                     [\<lparr>target = room_of (get_prop ''gameId'' data), event = ''game:edit'',
                       payload = P_game (view db game s2)\<rparr>,
                      \<lparr>target = room_of (get_prop ''gameId'' data), event = ''game:cards-played'',
                       payload = P_value (get_prop ''cards'' data)\<rparr>]\<rparr>"
    by blast
  from g p show ?thesis
    by (intro exI [of _ h] exI [of _ s1] exI [of _ game]) (simp add: w' received_def)
qed

lemma demo_play_succeeds:
  "play_white_cards_listener reference_db ref_playWhiteCards play_data demo_world
     = (Inr (), after_play)"
  by code_simp

lemma demo_play_facts:
  "room_of (get_prop ''gameId'' play_data) = ''game-g1''"
  "get_prop ''cards'' play_data = Arr [Str ''b1'']"
  "''C'' \<in> set (demo_members ''game-g1'')"
  "allCardsSent mixed_game"
  "filter (\<lambda>c. owner c \<in> set object_prototype_names) (whiteCards (current_round mixed_game)) = []"
  by code_simp+

lemma demo_views:
  "Game_round (\<lambda>s. s) ''C'' mixed_game
     = Inr [(''B'', [\<lparr>face_text = hidden_mark, face_click = None\<rparr>]),
            (''C'', [\<lparr>face_text = ''c1'', face_click = None\<rparr>])]"
  "Game_round (\<lambda>s. s) ''A'' mixed_game
     = Inr [(''B'', [\<lparr>face_text = hidden_mark,
                      face_click = Some \<lparr>card = ''b1'', owner = ''B'', hidden = True\<rparr>\<rparr>]),
            (''C'', [\<lparr>face_text = ''c1'',
                      face_click = Some \<lparr>card = ''c1'', owner = ''C'', hidden = False\<rparr>\<rparr>])]"
  by code_simp+

text \<open>
  Claim C1, as the code has it. Receipt is not restricted. When the listener of
  \<^verbatim>\<open>game:play-white-cards\<close> returns, every member of the room of the game, host or not,
  has received the same two events: \<^verbatim>\<open>game:edit\<close> with the game and
  \<^verbatim>\<open>game:cards-played\<close> with the cards of the payload, that is, the submitted texts.
  Concealment is done by the view of each client, host or not. While \<^verbatim>\<open>allCardsSent\<close>
  is false (the number of players with a card in the round is not the number of players
  minus one) it shows no submission. When it is true and a card's player names a property
  of \<^verbatim>\<open>Object.prototype\<close>, rendering throws. Otherwise it shows one group per player with
  a card in the round, and in that group one text per card of that player, in order: the
  mark for a card whose \<^verbatim>\<open>hidden\<close> flag is true, the decoded text for the others. The
  texts are the same for every client.
\<close>

theorem hidden_cards_masked_by_view:
  "(play_white_cards_listener db playWhiteCards data w = (Inr u, w') \<longrightarrow>
      (\<exists>h s1 game.
           getGame db (get_prop ''gameId'' data) (store w) = (Inr h, s1)
         \<and> playWhiteCards h (get_prop ''cards'' data) (get_prop ''playerId'' data) s1
             = (Inr game, store w')
         \<and> (\<forall>members c. c \<in> set (members (room_of (get_prop ''gameId'' data))) \<longrightarrow>
               received members (drop (length (emitted w)) (emitted w')) c
                 = [(''game:edit'', P_game (view db game (store w'))),
                    (''game:cards-played'', P_value (get_prop ''cards'' data))])))
   \<and> (\<not> allCardsSent g \<longrightarrow> Game_round decodeHtml playerId g = Inr [])
   \<and> (allCardsSent g
        \<and> filter (\<lambda>c. owner c \<in> set object_prototype_names) (whiteCards (current_round g)) \<noteq> []
      \<longrightarrow> (\<exists>e. Game_round decodeHtml playerId g = Inl e))
   \<and> (allCardsSent g
        \<and> filter (\<lambda>c. owner c \<in> set object_prototype_names) (whiteCards (current_round g)) = []
      \<longrightarrow> (\<exists>v. Game_round decodeHtml playerId g = Inr v
             \<and> distinct (map fst v)
             \<and> set (map fst v) = owner ` set (whiteCards (current_round g))
             \<and> (\<forall>grp \<in> set v.
                   map face_text (snd grp)
                     = map (\<lambda>c. if hidden c then hidden_mark else decodeHtml (card c))
                           (filter (\<lambda>c. owner c = fst grp) (whiteCards (current_round g))))))
   \<and> map_sum (\<lambda>e. e) (map (\<lambda>grp. (fst grp, map face_text (snd grp))))
        (Game_round decodeHtml playerId g)
       = map_sum (\<lambda>e. e) (map (\<lambda>grp. (fst grp, map face_text (snd grp))))
           (Game_round decodeHtml otherId g)"
proof (intro conjI impI)
  assume "play_white_cards_listener db playWhiteCards data w = (Inr u, w')"
  then show "\<exists>h s1 game.
           getGame db (get_prop ''gameId'' data) (store w) = (Inr h, s1)
         \<and> playWhiteCards h (get_prop ''cards'' data) (get_prop ''playerId'' data) s1
             = (Inr game, store w')
         \<and> (\<forall>members c. c \<in> set (members (room_of (get_prop ''gameId'' data))) \<longrightarrow>
               received members (drop (length (emitted w)) (emitted w')) c
                 = [(''game:edit'', P_game (view db game (store w'))),
                    (''game:cards-played'', P_value (get_prop ''cards'' data))])"
    by (rule play_white_cards_received)
next
  assume "\<not> allCardsSent g"
  then show "Game_round decodeHtml playerId g = Inr []"
    by (rule Game_round_not_sent)
next
  assume "allCardsSent g
    \<and> filter (\<lambda>c. owner c \<in> set object_prototype_names) (whiteCards (current_round g)) \<noteq> []"
  then have sent: "allCardsSent g"
    and named: "filter (\<lambda>c. owner c \<in> set object_prototype_names) (whiteCards (current_round g)) \<noteq> []"
    by simp_all
  from sent named show "\<exists>e. Game_round decodeHtml playerId g = Inl e"
    by (rule Game_round_throws)
next
  assume "allCardsSent g
    \<and> filter (\<lambda>c. owner c \<in> set object_prototype_names) (whiteCards (current_round g)) = []"
  then have sent: "allCardsSent g"
    and plain: "filter (\<lambda>c. owner c \<in> set object_prototype_names) (whiteCards (current_round g)) = []"
    by simp_all
  from sent plain
  show "\<exists>v. Game_round decodeHtml playerId g = Inr v
             \<and> distinct (map fst v)
             \<and> set (map fst v) = owner ` set (whiteCards (current_round g))
             \<and> (\<forall>grp \<in> set v.
                   map face_text (snd grp)
                     = map (\<lambda>c. if hidden c then hidden_mark else decodeHtml (card c))
                           (filter (\<lambda>c. owner c = fst grp) (whiteCards (current_round g))))"
    by (rule Game_round_shows)
next
  show "map_sum (\<lambda>e. e) (map (\<lambda>grp. (fst grp, map face_text (snd grp))))
        (Game_round decodeHtml playerId g)
       = map_sum (\<lambda>e. e) (map (\<lambda>grp. (fst grp, map face_text (snd grp))))
           (Game_round decodeHtml otherId g)"
    by (rule Game_round_same_texts)
qed

theorem hidden_cards_masked_by_view_witness:
  "play_white_cards_listener reference_db ref_playWhiteCards play_data demo_world
     = (Inr (), after_play)
   \<and> received demo_members (drop (length (emitted demo_world)) (emitted after_play)) ''C''
       = [(''game:edit'', P_game (view reference_db ''g1'' (store after_play))),
          (''game:cards-played'', P_value (Arr [Str ''b1'']))]
   \<and> allCardsSent mixed_game
   \<and> Game_round (\<lambda>s. s) ''C'' mixed_game
       = Inr [(''B'', [\<lparr>face_text = hidden_mark, face_click = None\<rparr>]),
              (''C'', [\<lparr>face_text = ''c1'', face_click = None\<rparr>])]
   \<and> Game_round (\<lambda>s. s) ''A'' mixed_game
       = Inr [(''B'', [\<lparr>face_text = hidden_mark,
                        face_click = Some \<lparr>card = ''b1'', owner = ''B'', hidden = True\<rparr>\<rparr>]),
              (''C'', [\<lparr>face_text = ''c1'',
                        face_click = Some \<lparr>card = ''c1'', owner = ''C'', hidden = False\<rparr>\<rparr>])]"
proof -
  from hidden_cards_masked_by_view
         [of reference_db ref_playWhiteCards play_data demo_world "()" after_play
             mixed_game "\<lambda>s. s" "''C''" "''A''",
          THEN conjunct1, THEN mp, OF demo_play_succeeds]
  obtain h s1 game where
      g: "getGame reference_db (get_prop ''gameId'' play_data) (store demo_world) = (Inr h, s1)"
    and p: "ref_playWhiteCards h (get_prop ''cards'' play_data) (get_prop ''playerId'' play_data) s1
             = (Inr game, store after_play)"
    and r: "\<forall>members c. c \<in> set (members (room_of (get_prop ''gameId'' play_data))) \<longrightarrow>
               received members (drop (length (emitted demo_world)) (emitted after_play)) c
                 = [(''game:edit'', P_game (view reference_db game (store after_play))),
                    (''game:cards-played'', P_value (get_prop ''cards'' play_data))]"
    by blast
  from g have h: "h = ''g1''"
    by (auto simp: reference_db_def dir_getGame_def play_data_def split: if_splits)
  from p h have game: "game = ''g1''"
    by (auto simp: ref_playWhiteCards_def on_session_def play_data_def
        split: json.splits option.splits sum.splits)
  from r demo_play_facts(3)
  have "received demo_members (drop (length (emitted demo_world)) (emitted after_play)) ''C''
       = [(''game:edit'', P_game (view reference_db ''g1'' (store after_play))),
          (''game:cards-played'', P_value (Arr [Str ''b1'']))]"
    by (simp add: demo_play_facts game)
  with demo_play_succeeds demo_play_facts(4) demo_views show ?thesis
    by simp
qed

text \<open>
  Claim C1 as the specification words it does not hold. In the example Bob submits the
  card \<open>b1\<close>, and no card has been revealed. The session holds the submission with
  \<^verbatim>\<open>hidden = true\<close> and Alice is the host. Carol, who is neither the host nor the
  submitter, receives the event \<^verbatim>\<open>game:cards-played\<close>, emitted to the room right after the
  state broadcast, and it carries the text of Bob's card.
\<close>

theorem hidden_text_reaches_other_player:
  "(''game:cards-played'', P_value (Arr [Str ''b1'']))
     \<in> set (received demo_members (emitted after_play) ''C'')
   \<and> map (\<lambda>kv. whiteCards (current_round (state (snd kv)))) (objects (store after_play))
       = [[\<lparr>card = ''b1'', owner = ''B'', hidden = True\<rparr>]]
   \<and> map (\<lambda>kv. host (current_round (state (snd kv)))) (objects (store after_play))
       = [Some ''A'']
   \<and> map event (emitted after_play) = [''game:edit'', ''game:cards-played'']"
  by code_simp

section \<open>The payloads the view sends, as the handlers read them\<close>

text \<open>
  Claim C7, evaluated on the code. \<^verbatim>\<open>playCards\<close> emits \<^verbatim>\<open>game:play-white-cards\<close> with the
  game id and the cards and no player id. The listener reads \<^verbatim>\<open>playerId\<close> from that
  payload as \<^verbatim>\<open>undefined\<close>, so \<^verbatim>\<open>playWhiteCards\<close> is called with the cards and
  \<^verbatim>\<open>undefined\<close> in place of the acting player's id.
\<close>

theorem playCards_omits_player_id:
  "fst (playCards g cs) = ''game:play-white-cards''
   \<and> play_white_cards_listener db playWhiteCards (snd (playCards g cs))
       = play_white_cards db playWhiteCards (Str (game_id g)) (Arr (map Str cs)) Undefined"
  by (simp add: playCards_def play_white_cards_listener_def destructure_def)

text \<open>
  Claim C8, evaluated on the code. \<^verbatim>\<open>discardWhiteCards\<close> emits
  \<^verbatim>\<open>game:discard-white-card\<close> with the game id and the card under the name \<^verbatim>\<open>card\<close>. The
  listener reads \<^verbatim>\<open>cards\<close> and \<^verbatim>\<open>playerId\<close>, both \<^verbatim>\<open>undefined\<close> in that payload, so
  \<^verbatim>\<open>discardWhiteCard\<close> is called with neither the card nor the player's id.
\<close>

theorem discardWhiteCards_payload_mismatch:
  "fst (discardWhiteCards g c) = ''game:discard-white-card''
   \<and> discard_white_card_listener db discardWhiteCard (snd (discardWhiteCards g c))
       = discard_white_card db discardWhiteCard (Str (game_id g)) Undefined Undefined"
  by (simp add: discardWhiteCards_def discard_white_card_listener_def destructure_def)

text \<open>
  Claim C9, evaluated on the code. \<^verbatim>\<open>closeGameOverModal\<close> emits \<^verbatim>\<open>game:leave\<close> with the
  game id itself, a string, as payload. The listener reads \<^verbatim>\<open>gameId\<close> and \<^verbatim>\<open>playerId\<close>
  from it, both \<^verbatim>\<open>undefined\<close>: it asks \<^verbatim>\<open>db\<close> for the game \<^verbatim>\<open>undefined\<close>, would remove
  the player \<^verbatim>\<open>undefined\<close>, and addresses the room \<^verbatim>\<open>game-undefined\<close>.
\<close>

theorem closeGameOverModal_payload_mismatch:
  "fst (closeGameOverModal g) = ''game:leave''
   \<and> leave_listener db removePlayer (snd (closeGameOverModal g))
       = leave db removePlayer Undefined Undefined
   \<and> room_of Undefined = ''game-undefined''"
  by (simp add: closeGameOverModal_def leave_listener_def destructure_def room_of_def)
end
